theory Spec2Isabelle
  imports Main "HOL-Library.Sublist"
begin

section \<open>JavaScript values\<close>

text \<open>
  The script \<^verbatim>\<open>scripts/tailor_resume.js\<close> is embedded function by function. The file under
  \<^verbatim>\<open>src/\<close> holds two variants of the script; the definitions below follow the second one,
  lines 207 to 521 (the one with \<^verbatim>\<open>findResumeFile\<close>, the two payload shapes and
  \<^verbatim>\<open>extractTextFromResponseJson\<close>), and the line numbers in the text are those of that
  file. The first variant has the same \<^verbatim>\<open>extractTextFromDocx\<close>.

  A string is the list of the bytes of its UTF-8 encoding. A JSON value is what
  \<^verbatim>\<open>res.json()\<close> yields. A number is kept as the text that JavaScript prints for it (the
  script only tests numbers for truthiness and prints them; zero and minus zero both
  print as \<^verbatim>\<open>0\<close>, and \<^verbatim>\<open>NaN\<close> is not a JSON number). An object is the list of its own
  properties in enumeration order, with distinct keys. A value that may be
  \<^verbatim>\<open>undefined\<close> is a \<open>json option\<close>.
\<close>

datatype json =
    JNull
  | JBool bool
  | JNum string
  | JStr string
  | JArr "json list"
  | JObj "(string \<times> json) list"

text \<open>
  What the script can throw: the two errors \<^verbatim>\<open>callGemini\<close> builds itself, the
  \<^verbatim>\<open>TypeError\<close> of the runtime (with the message that V8 gives), and whatever a library
  call throws, kept as the text \<^verbatim>\<open>String(err)\<close> gives for it.
\<close>

datatype err =
    FetchUnavailable
  | GenerationError string
  | TypeError string
  | LibError string

fun truthy :: "json \<Rightarrow> bool" where
  "truthy JNull = False"
| "truthy (JBool b) = b"
| "truthy (JNum s) = (s \<noteq> ''0'')"
| "truthy (JStr s) = (s \<noteq> [])"
| "truthy (JArr xs) = True"
| "truthy (JObj kvs) = True"

definition truthy_u :: "json option \<Rightarrow> bool" where
  "truthy_u v = (case v of None \<Rightarrow> False | Some j \<Rightarrow> truthy j)"

definition bindE :: "err + 'a \<Rightarrow> ('a \<Rightarrow> err + 'b) \<Rightarrow> err + 'b" where
  "bindE m f = (case m of Inl e \<Rightarrow> Inl e | Inr x \<Rightarrow> f x)"

text \<open>
  A property read \<^verbatim>\<open>v.k\<close>. It throws on \<^verbatim>\<open>null\<close> and \<^verbatim>\<open>undefined\<close>; on an object it
  finds the own property; on every other value it is \<^verbatim>\<open>undefined\<close>, the keys the script
  reads (\<^verbatim>\<open>output_text\<close>, \<^verbatim>\<open>candidates\<close>, \<^verbatim>\<open>content\<close>, \<^verbatim>\<open>output\<close>, \<^verbatim>\<open>message\<close>,
  \<^verbatim>\<open>text\<close>) being on no prototype.
\<close>

definition cannot_read :: "string \<Rightarrow> string \<Rightarrow> err" where
  "cannot_read what k =
     TypeError (''Cannot read properties of '' @ what @ '' (reading '' @ [CHR 0x27] @ k @ [CHR 0x27] @ '')'')"

definition get_prop :: "json option \<Rightarrow> string \<Rightarrow> err + json option" where
  "get_prop v k =
     (case v of
        None \<Rightarrow> Inl (cannot_read ''undefined'' k)
      | Some JNull \<Rightarrow> Inl (cannot_read ''null'' k)
      | Some (JObj kvs) \<Rightarrow> Inr (map_of kvs k)
      | Some _ \<Rightarrow> Inr None)"

definition first_elem :: "json list \<Rightarrow> json option" where
  "first_elem xs = (case xs of [] \<Rightarrow> None | x # _ \<Rightarrow> Some x)"

fun intercalate :: "string \<Rightarrow> string list \<Rightarrow> string" where
  "intercalate sep [] = []"
| "intercalate sep [x] = x"
| "intercalate sep (x # y # ys) = x @ sep @ intercalate sep (y # ys)"

text \<open>
  \<^verbatim>\<open>ToString\<close>, and the strings that \<^verbatim>\<open>Array.prototype.join\<close> puts between the
  separators: the empty string for \<^verbatim>\<open>null\<close>, \<^verbatim>\<open>ToString\<close> of every other element. An
  array prints as its elements joined by commas. An object prints as
  \<^verbatim>\<open>[object Object]\<close>, unless it has an own property \<^verbatim>\<open>toString\<close>: a JSON value is not
  callable, \<^verbatim>\<open>valueOf\<close> gives the object back, and the conversion throws.
\<close>

fun ToString :: "json \<Rightarrow> err + string"
  and ToStrings :: "json list \<Rightarrow> err + string list" where
  "ToString JNull = Inr ''null''"
| "ToString (JBool b) = Inr (if b then ''true'' else ''false'')"
| "ToString (JNum s) = Inr s"
| "ToString (JStr s) = Inr s"
| "ToString (JArr xs) = bindE (ToStrings xs) (\<lambda>ss. Inr (intercalate '','' ss))"
| "ToString (JObj kvs) =
     (if ''toString'' \<in> fst ` set kvs
      then Inl (TypeError ''Cannot convert object to primitive value'')
      else Inr ''[object Object]'')"
| "ToStrings [] = Inr []"
| "ToStrings (x # xs) =
     bindE (if x = JNull then Inr [] else ToString x)
       (\<lambda>s. bindE (ToStrings xs) (\<lambda>ss. Inr (s # ss)))"

definition join :: "string \<Rightarrow> json list \<Rightarrow> err + string" where
  "join sep xs = bindE (ToStrings xs) (\<lambda>ss. Inr (intercalate sep ss))"

fun mapE :: "(json \<Rightarrow> err + json) \<Rightarrow> json list \<Rightarrow> err + json list" where
  "mapE f [] = Inr []"
| "mapE f (x # xs) = bindE (f x) (\<lambda>y. bindE (mapE f xs) (\<lambda>ys. Inr (y # ys)))"

text \<open>\<^verbatim>\<open>JSON.stringify\<close> of a JSON value.\<close>

definition hex_digit :: "nat \<Rightarrow> char" where
  "hex_digit n = ''0123456789abcdef'' ! n"

definition escape_char :: "char \<Rightarrow> string" where
  "escape_char c =
     (if c = CHR 0x22 then [CHR 0x5C, CHR 0x22]
      else if c = CHR 0x5C then [CHR 0x5C, CHR 0x5C]
      else if c = CHR 0x08 then [CHR 0x5C, CHR ''b'']
      else if c = CHR 0x09 then [CHR 0x5C, CHR ''t'']
      else if c = CHR 0x0A then [CHR 0x5C, CHR ''n'']
      else if c = CHR 0x0C then [CHR 0x5C, CHR ''f'']
      else if c = CHR 0x0D then [CHR 0x5C, CHR ''r'']
      else if (of_char c :: nat) < 32
        then [CHR 0x5C, CHR ''u'', CHR ''0'', CHR ''0'',
              hex_digit (of_char c div 16), hex_digit (of_char c mod 16)]
      else [c])"

definition quote :: "string \<Rightarrow> string" where
  "quote s = [CHR 0x22] @ concat (map escape_char s) @ [CHR 0x22]"

fun JSON_stringify :: "json \<Rightarrow> string" where
  "JSON_stringify JNull = ''null''"
| "JSON_stringify (JBool b) = (if b then ''true'' else ''false'')"
| "JSON_stringify (JNum s) = s"
| "JSON_stringify (JStr s) = quote s"
| "JSON_stringify (JArr xs) = ''['' @ intercalate '','' (map JSON_stringify xs) @ '']''"
| "JSON_stringify (JObj kvs) =
     ''{'' @ intercalate '','' (map (\<lambda>(k, v). quote k @ '':'' @ JSON_stringify v) kvs) @ ''}''"

section \<open>Extracting the text of a response\<close>

text \<open>
  The two arrow functions of \<^verbatim>\<open>extractTextFromResponseJson\<close>:
  \<^verbatim>\<open>o => (o.text || JSON.stringify(o))\<close> and
  \<^verbatim>\<open>p => (typeof p === 'string' ? p : (p.text || JSON.stringify(p)))\<close>.
\<close>

definition text_or_json :: "json \<Rightarrow> err + json" where
  "text_or_json p =
     bindE (get_prop (Some p) ''text'')
       (\<lambda>t. Inr (if truthy_u t then the t else JStr (JSON_stringify p)))"

definition part_text :: "json \<Rightarrow> err + json" where
  "part_text p = (case p of JStr s \<Rightarrow> Inr p | _ \<Rightarrow> text_or_json p)"

definition map_join :: "(json \<Rightarrow> err + json) \<Rightarrow> json list \<Rightarrow> err + string" where
  "map_join f xs = bindE (mapE f xs) (join [CHR 0x0A])"

text \<open>
  Lines 362 to 373, for \<^verbatim>\<open>cand = json.candidates[0]\<close>. \<open>Inr (Some s)\<close> is
  \<^verbatim>\<open>return s\<close>; \<open>Inr None\<close> is leaving the block without a return.
\<close>

definition candidate_text :: "json \<Rightarrow> err + string option" where
  "candidate_text cand =
     bindE (get_prop (Some cand) ''content'') (\<lambda>content.
       case content of
         Some (JStr s) \<Rightarrow> Inr (Some s)
       | Some (JArr ps) \<Rightarrow> bindE (map_join part_text ps) (\<lambda>s. Inr (Some s))
       | _ \<Rightarrow>
         bindE (get_prop (Some cand) ''output'') (\<lambda>output.
           case output of
             Some (JArr os) \<Rightarrow> bindE (map_join text_or_json os) (\<lambda>s. Inr (Some s))
           | _ \<Rightarrow>
             bindE (get_prop (Some cand) ''message'') (\<lambda>message.
               if truthy_u message then
                 bindE (get_prop message ''content'') (\<lambda>mc.
                   if truthy_u mc then
                     (case mc of
                        Some (JStr s) \<Rightarrow> Inr (Some s)
                      | Some (JArr cs) \<Rightarrow> bindE (map_join text_or_json cs) (\<lambda>s. Inr (Some s))
                      | _ \<Rightarrow> Inr None)
                   else Inr None)
               else Inr None)))"

text \<open>Lines 376 to 378, the top-level \<^verbatim>\<open>output\<close> list.\<close>

definition top_output_text :: "json \<Rightarrow> err + string option" where
  "top_output_text json =
     bindE (get_prop (Some json) ''output'') (\<lambda>output.
       case output of
         Some (JArr os) \<Rightarrow>
           (if truthy_u (first_elem os) then
              bindE (get_prop (first_elem os) ''content'') (\<lambda>c.
                case c of
                  Some (JArr ps) \<Rightarrow> bindE (map_join text_or_json ps) (\<lambda>s. Inr (Some s))
                | _ \<Rightarrow> Inr None)
            else Inr None)
       | _ \<Rightarrow> Inr None)"

definition extractTextFromResponseJson :: "json \<Rightarrow> err + string" where
  "extractTextFromResponseJson json =
     (if \<not> truthy json then Inr []
      else
        bindE (get_prop (Some json) ''output_text'') (\<lambda>ot.
          case ot of
            Some (JStr s) \<Rightarrow> Inr s
          | _ \<Rightarrow>
            bindE (get_prop (Some json) ''candidates'') (\<lambda>cands.
              bindE
                (case cands of
                   Some (JArr cs) \<Rightarrow>
                     (if truthy_u (first_elem cs) then candidate_text (the (first_elem cs))
                      else Inr None)
                 | _ \<Rightarrow> Inr None)
                (\<lambda>r. case r of
                   Some s \<Rightarrow> Inr s
                 | None \<Rightarrow>
                   bindE (top_output_text json) (\<lambda>r2.
                     case r2 of
                       Some s \<Rightarrow> Inr s
                     | None \<Rightarrow> Inr (JSON_stringify json))))))"

section \<open>The environment and the effects of the script\<close>

text \<open>
  What a run does to the outside is a list of events, oldest first: an HTTP POST that
  \<^verbatim>\<open>fetch\<close> was asked to make (URL and body; the method and the content-type header
  are the same in every call), a directory created, a file written, a file that
  \<^verbatim>\<open>readFileSync\<close> was asked to read, and the calls on the headless browser that
  succeeded. Console output is left out of the model.
\<close>

datatype event =
    Post string string
  | Mkdir string
  | WriteFile string string
  | ReadFile string
  | Launch
  | NewPage
  | SetContent string
  | Pdf string
  | Close

text \<open>
  The answer of \<^verbatim>\<open>fetch\<close>: \<open>r_json\<close> is what \<^verbatim>\<open>res.json()\<close> resolves to (\<open>None\<close> when
  it rejects), \<open>r_text\<close> what \<^verbatim>\<open>res.text()\<close> resolves to when it is called after that
  rejection (\<open>None\<close> when it rejects too). The body of a \<^verbatim>\<open>Response\<close> is read once: where
  \<^verbatim>\<open>res.json()\<close> has read a body that is not JSON, \<^verbatim>\<open>res.text()\<close> rejects, and \<open>r_text\<close> is
  \<open>None\<close>.
\<close>

record response =
  r_ok :: bool
  r_status :: nat
  r_json :: "json option"
  r_text :: "string option"

text \<open>
  Everything the script calls and does not define is a field of the platform. A call
  that can throw answers \<open>Inl\<close> (or \<open>Some\<close>) with the text of what it throws, that is
  the text \<^verbatim>\<open>String(err)\<close> gives for it. The file system, the network and the browser may
  answer differently as the run goes on, so they are given the events so far; two calls
  with the same arguments and no event between them get the same answer.
\<close>

record platform =
  fetch_available :: bool
  fetch :: "event list \<Rightarrow> string \<Rightarrow> string \<Rightarrow> string + response"
  existsSync :: "event list \<Rightarrow> string \<Rightarrow> bool"
  mkdirSync :: "event list \<Rightarrow> string \<Rightarrow> string option"
  writeFileSync :: "event list \<Rightarrow> string \<Rightarrow> string \<Rightarrow> string option"
  readFileSync :: "event list \<Rightarrow> string \<Rightarrow> string + string"
  extractRawText :: "string \<Rightarrow> string + string"
  marked_parse :: "string \<Rightarrow> string + string"
  str_replace :: "string \<Rightarrow> string \<Rightarrow> string \<Rightarrow> string"
  puppeteer_launch :: "event list \<Rightarrow> string option"
  browser_newPage :: "event list \<Rightarrow> string option"
  page_setContent :: "event list \<Rightarrow> string \<Rightarrow> string option"
  page_pdf :: "event list \<Rightarrow> string \<Rightarrow> string option"
  browser_close :: "event list \<Rightarrow> string option"
  JSON_parse_ok :: "string \<Rightarrow> bool"
  parseInt10 :: "string \<Rightarrow> json option"
  path_isAbsolute :: "string \<Rightarrow> bool"
  path_arg_error :: "json \<Rightarrow> string"
  path_join :: "string list \<Rightarrow> string"
  path_basename :: "string \<Rightarrow> string"
  toLowerCase :: "string \<Rightarrow> string"
  cwd :: string
  dirname :: string

text \<open>
  A computation takes the events so far and gives its outcome and the events after it.
  \<^verbatim>\<open>process.exit(n)\<close> ends the run: no \<^verbatim>\<open>catch\<close> sees it.
\<close>

datatype 'a outcome = Returned 'a | Thrown err | Exited nat

type_synonym 'a io = "event list \<Rightarrow> 'a outcome \<times> event list"

definition ret :: "'a \<Rightarrow> 'a io" where
  "ret x = (\<lambda>t. (Returned x, t))"

definition throw :: "err \<Rightarrow> 'a io" where
  "throw e = (\<lambda>t. (Thrown e, t))"

definition process_exit :: "nat \<Rightarrow> 'a io" where
  "process_exit n = (\<lambda>t. (Exited n, t))"

definition lift :: "err + 'a \<Rightarrow> 'a io" where
  "lift r = (case r of Inl e \<Rightarrow> throw e | Inr x \<Rightarrow> ret x)"

definition then_io :: "'a io \<Rightarrow> ('a \<Rightarrow> 'b io) \<Rightarrow> 'b io" where
  "then_io m f = (\<lambda>t.
     case m t of
       (Returned x, t') \<Rightarrow> f x t'
     | (Thrown e, t') \<Rightarrow> (Thrown e, t')
     | (Exited n, t') \<Rightarrow> (Exited n, t'))"

definition try_catch :: "'a io \<Rightarrow> (err \<Rightarrow> 'a io) \<Rightarrow> 'a io" where
  "try_catch m h = (\<lambda>t.
     case m t of
       (Thrown e, t') \<Rightarrow> h e t'
     | r \<Rightarrow> r)"

definition fs_existsSync :: "platform \<Rightarrow> string \<Rightarrow> bool io" where
  "fs_existsSync p path = (\<lambda>t. (Returned (existsSync p t path), t))"

definition fs_mkdirSync :: "platform \<Rightarrow> string \<Rightarrow> unit io" where
  "fs_mkdirSync p path = (\<lambda>t.
     case mkdirSync p t path of
       Some e \<Rightarrow> (Thrown (LibError e), t)
     | None \<Rightarrow> (Returned (), t @ [Mkdir path]))"

definition fs_writeFileSync :: "platform \<Rightarrow> string \<Rightarrow> string \<Rightarrow> unit io" where
  "fs_writeFileSync p path content = (\<lambda>t.
     case writeFileSync p t path content of
       Some e \<Rightarrow> (Thrown (LibError e), t)
     | None \<Rightarrow> (Returned (), t @ [WriteFile path content]))"

definition fs_readFileSync :: "platform \<Rightarrow> string \<Rightarrow> string io" where
  "fs_readFileSync p path = (\<lambda>t.
     case readFileSync p t path of
       Inl e \<Rightarrow> (Thrown (LibError e), t @ [ReadFile path])
     | Inr content \<Rightarrow> (Returned content, t @ [ReadFile path]))"

text \<open>A call on the browser: the event is recorded when the call does not throw.\<close>

definition browser_call :: "(event list \<Rightarrow> string option) \<Rightarrow> event \<Rightarrow> unit io" where
  "browser_call f ev = (\<lambda>t.
     case f t of
       Some e \<Rightarrow> (Thrown (LibError e), t)
     | None \<Rightarrow> (Returned (), t @ [ev]))"

section \<open>The generation client\<close>

text \<open>
  The constants of lines 219 to 227, read from the process environment:
  \<^verbatim>\<open>GEMINI_API_KEY\<close> (empty when the variable is not set: the script then exits at line
  222, before any use), \<^verbatim>\<open>GEMINI_MODEL\<close> and \<^verbatim>\<open>MAX_OUTPUT_TOKENS\<close> (\<open>None\<close> for
  \<^verbatim>\<open>NaN\<close>).
\<close>

record environ =
  env_GEMINI_API_KEY :: "string option"
  env_GEMINI_MODEL :: "string option"
  env_MAX_OUTPUT_TOKENS :: "string option"

definition or_str :: "string option \<Rightarrow> string \<Rightarrow> string" where
  "or_str v d = (case v of None \<Rightarrow> d | Some s \<Rightarrow> if s = [] then d else s)"

definition GEMINI_API_KEY :: "environ \<Rightarrow> string" where
  "GEMINI_API_KEY env = or_str (env_GEMINI_API_KEY env) []"

definition GEMINI_MODEL :: "environ \<Rightarrow> string" where
  "GEMINI_MODEL env = or_str (env_GEMINI_MODEL env) ''gemini-2.5-flash''"

definition GEMINI_BASE :: string where
  "GEMINI_BASE = ''https://generativelanguage.googleapis.com/v1/models''"

definition MAX_OUTPUT_TOKENS :: "platform \<Rightarrow> environ \<Rightarrow> json option" where
  "MAX_OUTPUT_TOKENS p env = parseInt10 p (or_str (env_MAX_OUTPUT_TOKENS env) ''4096'')"

text \<open>
  The options of a call. \<^verbatim>\<open>a ?? b\<close> is \<open>b\<close> when \<open>a\<close> is \<^verbatim>\<open>undefined\<close> or \<^verbatim>\<open>null\<close>; a
  \<^verbatim>\<open>NaN\<close> in the payload is written \<^verbatim>\<open>null\<close> by \<^verbatim>\<open>JSON.stringify\<close>.
\<close>

record opts =
  o_model :: "string option"
  o_temperature :: "json option"
  o_maxOutputTokens :: "json option"

definition nullish :: "json option \<Rightarrow> bool" where
  "nullish v = (v = None \<or> v = Some JNull)"

definition candidateConfig :: "platform \<Rightarrow> environ \<Rightarrow> opts \<Rightarrow> json" where
  "candidateConfig p env ops =
     JObj [(''temperature'',
              if nullish (o_temperature ops) then JNum ''0.2'' else the (o_temperature ops)),
           (''maxOutputTokens'',
              if nullish (o_maxOutputTokens ops)
              then (case MAX_OUTPUT_TOKENS p env of None \<Rightarrow> JNull | Some n \<Rightarrow> n)
              else the (o_maxOutputTokens ops))]"

definition contents :: "string \<Rightarrow> json" where
  "contents prompt = JArr [JObj [(''parts'', JArr [JObj [(''text'', JStr prompt)]])]]"

definition body1 :: "platform \<Rightarrow> environ \<Rightarrow> string \<Rightarrow> opts \<Rightarrow> json" where
  "body1 p env prompt ops =
     JObj [(''contents'', contents prompt), (''candidateConfig'', candidateConfig p env ops)]"

definition body2 :: "string \<Rightarrow> json" where
  "body2 prompt = JObj [(''contents'', contents prompt)]"

definition url :: "environ \<Rightarrow> opts \<Rightarrow> string" where
  "url env ops =
     GEMINI_BASE @ ''/'' @ or_str (o_model ops) (GEMINI_MODEL env)
       @ '':generateContent?key='' @ GEMINI_API_KEY env"

text \<open>
  The record that \<^verbatim>\<open>postJson\<close> returns; \<open>a_text = None\<close> is \<^verbatim>\<open>null\<close>. \<^verbatim>\<open>json\<close> and
  \<^verbatim>\<open>text\<close> start at \<^verbatim>\<open>null\<close>; \<^verbatim>\<open>text\<close> is assigned only when \<^verbatim>\<open>res.json()\<close> rejects.
\<close>

record attempt =
  a_ok :: bool
  a_status :: nat
  a_json :: json
  a_text :: "string option"

definition attempt_of :: "response \<Rightarrow> attempt" where
  "attempt_of res =
     \<lparr>a_ok = r_ok res, a_status = r_status res,
      a_json = (case r_json res of None \<Rightarrow> JNull | Some j \<Rightarrow> j),
      a_text = (case r_json res of None \<Rightarrow> r_text res | Some j \<Rightarrow> None)\<rparr>"

definition postJson :: "platform \<Rightarrow> string \<Rightarrow> json \<Rightarrow> attempt io" where
  "postJson p u bodyObj = (\<lambda>t.
     case fetch p t u (JSON_stringify bodyObj) of
       Inl e \<Rightarrow> (Thrown (LibError e), t @ [Post u (JSON_stringify bodyObj)])
     | Inr res \<Rightarrow> (Returned (attempt_of res), t @ [Post u (JSON_stringify bodyObj)]))"

text \<open>A number in a template literal: its decimal digits.\<close>

fun show_nat :: "nat \<Rightarrow> string" where
  "show_nat n =
     (if n < 10 then [''0123456789'' ! n]
      else show_nat (n div 10) @ [''0123456789'' ! (n mod 10)])"

declare show_nat.simps [simp del]

text \<open>
  The test of line 334,
  \<^verbatim>\<open>/Unknown name.*temperature|Unknown name.*maxOutputTokens/i\<close>: case is ignored on
  ASCII letters only, and the dot stops at a line terminator (LF, CR, U+2028, U+2029).
\<close>

definition lower :: "char \<Rightarrow> char" where
  "lower c =
     (if 65 \<le> (of_char c :: nat) \<and> (of_char c :: nat) \<le> 90
      then char_of (of_char c + (32 :: nat)) else c)"

fun first_line :: "string \<Rightarrow> string" where
  "first_line [] = []"
| "first_line (c # cs) =
     (if c = CHR 0x0A \<or> c = CHR 0x0D
         \<or> prefix [CHR 0xE2, CHR 0x80, CHR 0xA8] (c # cs)
         \<or> prefix [CHR 0xE2, CHR 0x80, CHR 0xA9] (c # cs)
      then [] else c # first_line cs)"

fun unknown_name_at :: "string \<Rightarrow> bool" where
  "unknown_name_at [] = False"
| "unknown_name_at (c # cs) =
     ((prefix ''unknown name'' (c # cs)
        \<and> (sublist ''temperature'' (first_line (drop 12 (c # cs)))
           \<or> sublist ''maxoutputtokens'' (first_line (drop 12 (c # cs)))))
      \<or> unknown_name_at cs)"

definition unknown_name_re :: "string \<Rightarrow> bool" where
  "unknown_name_re s = unknown_name_at (map lower s)"

definition errText :: "attempt \<Rightarrow> string" where
  "errText a =
     (if truthy (a_json a) then JSON_stringify (a_json a)
      else (case a_text a of
              None \<Rightarrow> ''status '' @ show_nat (a_status a)
            | Some s \<Rightarrow> if s = [] then ''status '' @ show_nat (a_status a) else s))"

text \<open>
  \<^verbatim>\<open>a.json ? JSON.stringify(a.json) : a.text\<close> inside a template literal, where
  \<^verbatim>\<open>null\<close> prints as \<^verbatim>\<open>null\<close>.
\<close>

definition msg_of :: "attempt \<Rightarrow> string" where
  "msg_of a =
     (if truthy (a_json a) then JSON_stringify (a_json a)
      else (case a_text a of None \<Rightarrow> ''null'' | Some s \<Rightarrow> s))"

definition callGemini :: "platform \<Rightarrow> environ \<Rightarrow> string \<Rightarrow> opts \<Rightarrow> string io" where
  "callGemini p env prompt ops =
     (if \<not> fetch_available p then throw FetchUnavailable
      else
        then_io (postJson p (url env ops) (body1 p env prompt ops)) (\<lambda>attempt1.
          if a_ok attempt1 then lift (extractTextFromResponseJson (a_json attempt1))
          else if a_status attempt1 = 400 \<and> unknown_name_re (errText attempt1) then
            then_io (postJson p (url env ops) (body2 prompt)) (\<lambda>attempt2.
              if a_ok attempt2 then lift (extractTextFromResponseJson (a_json attempt2))
              else throw (GenerationError
                (''Gemini API error (both attempts failed). First: '' @ errText attempt1
                  @ ''. Second: '' @ msg_of attempt2)))
          else
            then_io (postJson p (url env ops) (body2 prompt)) (\<lambda>attempt2.
              if a_ok attempt2 then lift (extractTextFromResponseJson (a_json attempt2))
              else throw (GenerationError
                (''Gemini API error. Attempt1: '' @ msg_of attempt1
                  @ ''. Attempt2: '' @ msg_of attempt2)))))"

section \<open>The prompt builders\<close>

text \<open>
  A template literal applies \<^verbatim>\<open>ToString\<close> to each value it splices in, from left to
  right, so a builder takes any values and can throw where one of them cannot be
  printed.
\<close>

definition buildTailorPrompt :: "json \<Rightarrow> json \<Rightarrow> json \<Rightarrow> err + string" where
  "buildTailorPrompt resumeText jobTitle jobDesc =
     bindE (ToString resumeText) (\<lambda>r.
     bindE (ToString jobTitle) (\<lambda>t.
     bindE (ToString jobDesc) (\<lambda>d.
       Inr (''\<newline>You are an expert resume writer. Tailor the following existing resume text to the job.\<newline>''
         @ ''\<newline>=== EXISTING RESUME TEXT START ===\<newline>''
         @ r
         @ ''\<newline>=== EXISTING RESUME TEXT END ===\<newline>''
         @ ''\<newline>Job title: '' @ t
         @ ''\<newline>Job description:\<newline>''
         @ d
         @ ''\<newline>\<newline>Task:\<newline>''
         @ ''1) Produce a tailored resume (in Markdown) that emphasizes relevant skills, achievements, and keywords matching the job description.\<newline>''
         @ ''2) Keep it concise '' @ [CHR 0xE2, CHR 0x80, CHR 0x94]
         @ '' 1-2 pages equivalent, with bullet points for responsibilities & achievements.\<newline>''
         @ ''3) Where possible, quantify achievements (use reasonable placeholders if specific numbers are not present).\<newline>''
         @ ''4) Use headings: Name, Contact (placeholders allowed), Summary, Skills, Experience (with bullets), Education, Certifications.\<newline>''
         @ ''5) Return ONLY the resume in Markdown (no analysis).\<newline>''))))"

definition buildRecruiterReviewPrompt :: "json \<Rightarrow> json \<Rightarrow> json \<Rightarrow> json \<Rightarrow> err + string" where
  \<open>buildRecruiterReviewPrompt tailoredResumeMarkdown company jobTitle jobDesc =
     bindE (ToString company) (\<lambda>c.
     bindE (ToString jobTitle) (\<lambda>t.
     bindE (ToString jobDesc) (\<lambda>d.
     bindE (ToString tailoredResumeMarkdown) (\<lambda>m.
       Inr (''\<newline>You are now a recruiter at '' @ c
         @ '' reviewing a candidate for the role: '' @ t
         @ ''.\<newline>\<newline>Job description:\<newline>''
         @ d
         @ ''\<newline>\<newline>Candidate tailored resume:\<newline>''
         @ m
         @ ''\<newline>\<newline>Task:\<newline>''
         @ ''1) As the recruiter, list up to 10 specific gaps or weaknesses where the candidate does not match the job (missing skills, experience, unclear quantification, seniority mismatch).\<newline>''
         @ ''2) For each gap, explain why it's important for the role and give a one-sentence suggestion on how to fix it in the resume or cover letter.\<newline>''
         @ ''Return the response as JSON with fields: { "gaps": [ { "issue": "...", "importance": "...", "fix": "..." } ] }\<newline>'')))))\<close>

definition buildFixPrompt :: "json \<Rightarrow> json \<Rightarrow> err + string" where
  "buildFixPrompt tailoredResumeMarkdown gapsJson =
     bindE (ToString tailoredResumeMarkdown) (\<lambda>m.
     bindE (ToString gapsJson) (\<lambda>g.
       Inr (''\<newline>You are an expert resume writer. Given the tailored resume below and the recruiter's identified gaps, update and improve the resume to address the gaps.\<newline>''
         @ ''\<newline>Tailored resume:\<newline>''
         @ m
         @ ''\<newline>\<newline>Recruiter gaps (JSON):\<newline>''
         @ g
         @ ''\<newline>\<newline>Task:\<newline>''
         @ ''1) Modify the resume to address the gaps as best as possible. If quantification is invented, mark numbers with parentheses and note they should be replaced.\<newline>''
         @ ''2) Return only the final updated resume in Markdown.\<newline>'')))"

section \<open>Finding the resume and reading its text\<close>

definition lib :: "string + 'a \<Rightarrow> 'a io" where
  "lib r = (case r of Inl e \<Rightarrow> throw (LibError e) | Inr x \<Rightarrow> ret x)"

text \<open>
  \<^verbatim>\<open>s.replace(/^pat/, rep)\<close> for a literal \<^verbatim>\<open>pat\<close> and a \<^verbatim>\<open>rep\<close> without dollar signs.
\<close>

definition replace_prefix :: "string \<Rightarrow> string \<Rightarrow> string \<Rightarrow> string" where
  "replace_prefix pat rep s = (if prefix pat s then rep @ drop (length pat) s else s)"

definition candidates :: "platform \<Rightarrow> string \<Rightarrow> string list" where
  "candidates p requestedPath =
     [if path_isAbsolute p requestedPath then requestedPath
      else path_join p [cwd p, requestedPath]]
     @ (if \<not> prefix ''resumes/'' requestedPath \<and> \<not> prefix ''resume/'' requestedPath
        then [path_join p [cwd p, ''resumes'', requestedPath],
              path_join p [cwd p, ''resume'', requestedPath]]
        else [path_join p [cwd p, replace_prefix ''resumes/'' ''resume/'' requestedPath],
              path_join p [cwd p, replace_prefix ''resume/'' ''resumes/'' requestedPath]])
     @ [path_join p [cwd p, path_basename p requestedPath],
        path_join p [cwd p, toLowerCase p (path_basename p requestedPath)],
        path_join p [cwd p, map (\<lambda>c. if c = CHR ''-'' then CHR ''_'' else c)
                                (path_basename p requestedPath)]]"

text \<open>The filter of lines 262 to 269: empty paths and paths seen before are dropped.\<close>

fun uniq :: "string list \<Rightarrow> string list \<Rightarrow> string list" where
  "uniq seen [] = []"
| "uniq seen (x # xs) =
     (if x = [] then uniq seen xs
      else if x \<in> set seen then uniq seen xs
      else x # uniq (x # seen) xs)"

text \<open>
  \<open>None\<close> is \<^verbatim>\<open>null\<close>. \<^verbatim>\<open>path.isAbsolute\<close> throws on a value that is not a string.
\<close>

definition findResumeFile :: "platform \<Rightarrow> json \<Rightarrow> string option io" where
  "findResumeFile p requestedPath =
     (case requestedPath of
        JStr s \<Rightarrow> (\<lambda>t. (Returned (find (existsSync p t) (uniq [] (candidates p s))), t))
      | v \<Rightarrow> throw (LibError (path_arg_error p v)))"

text \<open>
  \<^verbatim>\<open>String.prototype.trim\<close> on UTF-8 bytes: the white space and line terminators of
  ECMAScript, each as the bytes of its encoding, are stripped from both ends.
\<close>

definition ws_seqs :: "string list" where
  "ws_seqs =
     [[CHR 0x09], [CHR 0x0A], [CHR 0x0B], [CHR 0x0C], [CHR 0x0D], [CHR 0x20],
      [CHR 0xC2, CHR 0xA0], [CHR 0xE1, CHR 0x9A, CHR 0x80],
      [CHR 0xE2, CHR 0x80, CHR 0x80], [CHR 0xE2, CHR 0x80, CHR 0x81],
      [CHR 0xE2, CHR 0x80, CHR 0x82], [CHR 0xE2, CHR 0x80, CHR 0x83],
      [CHR 0xE2, CHR 0x80, CHR 0x84], [CHR 0xE2, CHR 0x80, CHR 0x85],
      [CHR 0xE2, CHR 0x80, CHR 0x86], [CHR 0xE2, CHR 0x80, CHR 0x87],
      [CHR 0xE2, CHR 0x80, CHR 0x88], [CHR 0xE2, CHR 0x80, CHR 0x89],
      [CHR 0xE2, CHR 0x80, CHR 0x8A], [CHR 0xE2, CHR 0x80, CHR 0xA8],
      [CHR 0xE2, CHR 0x80, CHR 0xA9], [CHR 0xE2, CHR 0x80, CHR 0xAF],
      [CHR 0xE2, CHR 0x81, CHR 0x9F], [CHR 0xE3, CHR 0x80, CHR 0x80],
      [CHR 0xEF, CHR 0xBB, CHR 0xBF]]"

function strip_lead :: "string list \<Rightarrow> string \<Rightarrow> string" where
  "strip_lead ws s =
     (case find (\<lambda>w. w \<noteq> [] \<and> prefix w s) ws of
        None \<Rightarrow> s
      | Some w \<Rightarrow> strip_lead ws (drop (length w) s))"
  by pat_completeness auto
termination
proof (relation "measure (\<lambda>(ws, s). length s)")
  show "wf (measure (\<lambda>(ws, s). length s))" by simp
next
  fix ws :: "string list" and s w :: string
  assume "find (\<lambda>w. w \<noteq> [] \<and> prefix w s) ws = Some w"
  then have "w \<noteq> []" and "prefix w s"
    by (auto simp: find_Some_iff)
  then have "length (drop (length w) s) < length s"
    by (auto simp: prefix_def)
  then show "((ws, drop (length w) s), (ws, s)) \<in> measure (\<lambda>(ws, s). length s)"
    by simp
qed

definition trim :: "string \<Rightarrow> string" where
  "trim s = rev (strip_lead (map rev ws_seqs) (rev (strip_lead ws_seqs s)))"

definition extractTextFromDocx :: "platform \<Rightarrow> string \<Rightarrow> string io" where
  "extractTextFromDocx p filePath =
     then_io (fs_readFileSync p filePath) (\<lambda>buffer.
     then_io (lib (extractRawText p buffer)) (\<lambda>v.
       ret (trim (filter (\<lambda>c. c \<noteq> CHR 0x0D) v))))"

section \<open>Rendering\<close>

definition out_dir :: "platform \<Rightarrow> string" where
  "out_dir p = path_join p [cwd p, ''output'']"

definition out_file :: "platform \<Rightarrow> string \<Rightarrow> string" where
  "out_file p name = path_join p [cwd p, ''output'', name]"

text \<open>
  \<^verbatim>\<open>if (!fs.existsSync(out)) fs.mkdirSync(out)\<close>, which stands at lines 449, 463 and 516.
\<close>

definition ensure_output :: "platform \<Rightarrow> unit io" where
  "ensure_output p =
     then_io (fs_existsSync p (out_dir p)) (\<lambda>ex.
       if \<not> ex then fs_mkdirSync p (out_dir p) else ret ())"

definition default_template :: string where
  \<open>default_template =
     ''<!doctype html><html><head><meta charset="utf-8"><title>{{TITLE}}</title></head>''
     @ ''<body>{{CONTENT}}</body></html>''\<close>

definition templatePath :: "platform \<Rightarrow> string" where
  "templatePath p = path_join p [dirname p, ''..'', ''templates'', ''resume_template.html'']"

text \<open>
  Lines 441 to 450 of \<^verbatim>\<open>saveMarkdownAsPdf\<close>: the template is filled and written; the
  result is \<^verbatim>\<open>filled\<close>.
\<close>

definition write_rendered_html :: "platform \<Rightarrow> string \<Rightarrow> string \<Rightarrow> string io" where
  "write_rendered_html p markdownText title =
     then_io (fs_existsSync p (templatePath p)) (\<lambda>ex.
     then_io (if ex then fs_readFileSync p (templatePath p) else ret default_template)
       (\<lambda>template.
     then_io (lib (marked_parse p markdownText)) (\<lambda>htmlResume.
     then_io (ensure_output p) (\<lambda>_.
     then_io (fs_writeFileSync p (out_file p ''tailored_resume_rendered.html'')
                (str_replace p (str_replace p template ''{{CONTENT}}'' htmlResume)
                   ''{{TITLE}}'' title)) (\<lambda>_.
       ret (str_replace p (str_replace p template ''{{CONTENT}}'' htmlResume)
              ''{{TITLE}}'' title))))))"

text \<open>Lines 452 to 456: the five calls on the browser, one after the other.\<close>

definition print_pdf :: "platform \<Rightarrow> string \<Rightarrow> string \<Rightarrow> unit io" where
  "print_pdf p filled outPdfPath =
     then_io (browser_call (puppeteer_launch p) Launch) (\<lambda>_.
     then_io (browser_call (browser_newPage p) NewPage) (\<lambda>_.
     then_io (browser_call (\<lambda>t. page_setContent p t filled) (SetContent filled)) (\<lambda>_.
     then_io (browser_call (\<lambda>t. page_pdf p t outPdfPath) (Pdf outPdfPath)) (\<lambda>_.
       browser_call (browser_close p) Close))))"

definition saveMarkdownAsPdf :: "platform \<Rightarrow> string \<Rightarrow> string \<Rightarrow> string \<Rightarrow> unit io" where
  "saveMarkdownAsPdf p markdownText outPdfPath title =
     then_io (write_rendered_html p markdownText title) (\<lambda>filled.
       print_pdf p filled outPdfPath)"

section \<open>The main flow\<close>

text \<open>
  The flags as \<^verbatim>\<open>minimist\<close> gives them (\<open>None\<close> for a flag that is absent), and the
  constants of lines 229 to 233. \<^verbatim>\<open>a || b\<close> is \<open>a\<close> when \<open>a\<close> is truthy.
\<close>

record argv =
  arg_job_title :: "json option"
  arg_jobTitle :: "json option"
  arg_job_desc :: "json option"
  arg_jobDesc :: "json option"
  arg_job_description :: "json option"
  arg_company :: "json option"
  arg_resume_path :: "json option"
  arg_max_iterations :: "json option"

definition js_or :: "json option \<Rightarrow> json \<Rightarrow> json" where
  "js_or a b = (if truthy_u a then the a else b)"

definition jobTitle :: "argv \<Rightarrow> json" where
  "jobTitle a = js_or (arg_job_title a) (js_or (arg_jobTitle a) (JStr ''Software Engineer''))"

definition jobDesc :: "argv \<Rightarrow> json" where
  "jobDesc a =
     js_or (arg_job_desc a) (js_or (arg_jobDesc a) (js_or (arg_job_description a) (JStr [])))"

definition company :: "argv \<Rightarrow> json" where
  "company a = js_or (arg_company a) (JStr ''Company'')"

definition resumePathInput :: "argv \<Rightarrow> json" where
  "resumePathInput a = js_or (arg_resume_path a) (JStr ''resumes/Keshav-resume.docx'')"

text \<open>
  Line 233. \<^verbatim>\<open>parseInt\<close> first applies \<^verbatim>\<open>ToString\<close> to its argument, which can throw; on a
  string it gives a number or \<^verbatim>\<open>NaN\<close> (\<open>None\<close>), which is falsy.
\<close>

definition maxIterations :: "platform \<Rightarrow> argv \<Rightarrow> err + json" where
  "maxIterations p a =
     bindE (ToString (js_or (arg_max_iterations a) (JNum ''1'')))
       (\<lambda>s. Inr (js_or (parseInt10 p s) (JNum ''1'')))"

text \<open>\<^verbatim>\<open>String(err)\<close>, the content of the error file.\<close>

definition err_text :: "err \<Rightarrow> string" where
  "err_text e =
     (case e of
        FetchUnavailable \<Rightarrow>
          ''Error: Global fetch is not available in this Node runtime. ''
          @ ''Use Node 18+ (GitHub Actions uses Node 20).''
      | GenerationError m \<Rightarrow> ''Error: '' @ m
      | TypeError m \<Rightarrow> ''TypeError: '' @ m
      | LibError s \<Rightarrow> s)"

text \<open>
  The match of \<^verbatim>\<open>/\{[\s\S]*\}/\<close>: from the first opening brace to the last closing brace
  after it.
\<close>

definition match_braces :: "string \<Rightarrow> string option" where
  "match_braces s =
     (if CHR ''}'' \<in> set (drop 1 (dropWhile (\<lambda>c. c \<noteq> CHR ''{'') s))
      then Some (rev (dropWhile (\<lambda>c. c \<noteq> CHR ''}'') (rev (dropWhile (\<lambda>c. c \<noteq> CHR ''{'') s))))
      else None)"

text \<open>Lines 487 to 495: the value of \<^verbatim>\<open>gapsJson\<close> after the \<^verbatim>\<open>try\<close>.\<close>

definition gaps_of :: "platform \<Rightarrow> string \<Rightarrow> string" where
  "gaps_of p gapsRaw =
     (if JSON_parse_ok p (case match_braces gapsRaw of None \<Rightarrow> gapsRaw | Some m \<Rightarrow> m)
      then (case match_braces gapsRaw of None \<Rightarrow> gapsRaw | Some m \<Rightarrow> m)
      else gapsRaw)"

definition opts_tailor :: opts where
  "opts_tailor =
     \<lparr>o_model = None, o_temperature = Some (JNum ''0.2''),
      o_maxOutputTokens = Some (JNum ''4096'')\<rparr>"

definition opts_review :: opts where
  "opts_review =
     \<lparr>o_model = None, o_temperature = Some (JNum ''0.1''),
      o_maxOutputTokens = Some (JNum ''1024'')\<rparr>"

definition opts_fix :: opts where
  "opts_fix =
     \<lparr>o_model = None, o_temperature = Some (JNum ''0.15''),
      o_maxOutputTokens = Some (JNum ''4096'')\<rparr>"

text \<open>Lines 487 to 512, from the answer of the review call on.\<close>

definition after_review :: "platform \<Rightarrow> environ \<Rightarrow> argv \<Rightarrow> string \<Rightarrow> string \<Rightarrow> unit io" where
  "after_review p env a tailored gapsRaw =
     then_io (fs_writeFileSync p (out_file p ''recruiter_gaps.json.txt'') (gaps_of p gapsRaw))
       (\<lambda>_.
     then_io (lift (buildFixPrompt (JStr tailored) (JStr (gaps_of p gapsRaw)))) (\<lambda>fixPrompt.
     then_io (callGemini p env fixPrompt opts_fix) (\<lambda>fixedResume.
     then_io (fs_writeFileSync p (out_file p ''tailored_resume_final.md'') fixedResume) (\<lambda>_.
     then_io (lift (bindE (ToString (jobTitle a)) (\<lambda>t. Inr (t @ '' - Tailored Resume''))))
       (\<lambda>title.
     then_io (saveMarkdownAsPdf p fixedResume (out_file p ''tailored_resume_final.pdf'') title)
       (\<lambda>_.
       process_exit 0))))))"

text \<open>Lines 473 to 486, from the resolved resume to the answer of the review call.\<close>

definition from_resume :: "platform \<Rightarrow> environ \<Rightarrow> argv \<Rightarrow> string \<Rightarrow> unit io" where
  "from_resume p env a resolvedResume =
     then_io (extractTextFromDocx p resolvedResume) (\<lambda>resumeText.
     then_io (lift (buildTailorPrompt (JStr resumeText) (jobTitle a) (jobDesc a)))
       (\<lambda>tailorPrompt.
     then_io (callGemini p env tailorPrompt opts_tailor) (\<lambda>tailored.
     then_io (fs_writeFileSync p (out_file p ''tailored_resume_stage1.md'') tailored) (\<lambda>_.
     then_io (lift (buildRecruiterReviewPrompt (JStr tailored) (company a) (jobTitle a)
                      (jobDesc a))) (\<lambda>reviewPrompt.
     then_io (callGemini p env reviewPrompt opts_review) (\<lambda>gapsRaw.
       after_review p env a tailored gapsRaw))))))"

text \<open>The body of the \<^verbatim>\<open>try\<close>, lines 462 to 512.\<close>

definition main_try :: "platform \<Rightarrow> environ \<Rightarrow> argv \<Rightarrow> unit io" where
  "main_try p env a =
     then_io (ensure_output p) (\<lambda>_.
     then_io (findResumeFile p
                (js_or (Some (resumePathInput a)) (JStr ''resumes/Keshav-resume.docx'')))
       (\<lambda>resolvedResume.
       case resolvedResume of
         None \<Rightarrow> process_exit 2
       | Some f \<Rightarrow> if f = [] then process_exit 2 else from_resume p env a f))"

text \<open>
  The handler, lines 513 to 520: the error file is written inside a \<^verbatim>\<open>try\<close> of its own
  whose \<^verbatim>\<open>catch\<close> is empty.
\<close>

definition on_error :: "platform \<Rightarrow> err \<Rightarrow> unit io" where
  "on_error p e =
     then_io
       (try_catch
          (then_io (ensure_output p) (\<lambda>_.
             fs_writeFileSync p (out_file p ''error.txt'') (err_text e)))
          (\<lambda>e2. ret ()))
       (\<lambda>_. process_exit 10)"

definition main_flow :: "platform \<Rightarrow> environ \<Rightarrow> argv \<Rightarrow> unit io" where
  "main_flow p env a = try_catch (main_try p env a) (on_error p)"

text \<open>
  The whole script: the check of lines 219 to 223, the constants of lines 225 to 233, of
  which only line 233 can throw, then the main flow. An outcome \<open>Thrown\<close> of the script is
  an exception that nothing catches.
\<close>

definition script :: "platform \<Rightarrow> environ \<Rightarrow> argv \<Rightarrow> unit io" where
  "script p env a =
     (if GEMINI_API_KEY env = [] then process_exit 1
      else then_io (lift (maxIterations p a)) (\<lambda>_. main_flow p env a))"

definition exit_status :: "'a outcome \<times> event list \<Rightarrow> nat option" where
  "exit_status r = (case fst r of Exited n \<Rightarrow> Some n | _ \<Rightarrow> None)"

section \<open>Notions used in the statements\<close>

subsection \<open>Computations and their events\<close>

text \<open>A result that, when it is an error, is a \<^verbatim>\<open>TypeError\<close>.\<close>

definition type_errs :: "err + 'a \<Rightarrow> bool" where
  "type_errs r = (case r of Inl e \<Rightarrow> (case e of TypeError m \<Rightarrow> True | _ \<Rightarrow> False) | Inr x \<Rightarrow> True)"

text \<open>
  The message of the error that \<^verbatim>\<open>callGemini\<close> throws at line 342 or at line 352, for
  the two records that \<^verbatim>\<open>postJson\<close> returned.
\<close>

definition failure_message :: "attempt \<Rightarrow> attempt \<Rightarrow> string" where
  "failure_message a1 a2 =
     (if a_status a1 = 400 \<and> unknown_name_re (errText a1)
      then ''Gemini API error (both attempts failed). First: '' @ errText a1
             @ ''. Second: '' @ msg_of a2
      else ''Gemini API error. Attempt1: '' @ msg_of a1 @ ''. Attempt2: '' @ msg_of a2)"

text \<open>
  Two properties of a computation, from any events: it never calls \<^verbatim>\<open>process.exit\<close>; the
  events it adds all satisfy \<open>P\<close>.
\<close>

definition no_exit :: "'a io \<Rightarrow> bool" where
  "no_exit m = (\<forall>t n. fst (m t) \<noteq> Exited n)"

definition emits :: "(event \<Rightarrow> bool) \<Rightarrow> 'a io \<Rightarrow> bool" where
  "emits P m = (\<forall>t. \<exists>new. snd (m t) = t @ new \<and> list_all P new)"

definition file_event :: "event \<Rightarrow> bool" where
  "file_event e =
     (case e of Mkdir d \<Rightarrow> True | WriteFile f c \<Rightarrow> True | ReadFile f \<Rightarrow> True | _ \<Rightarrow> False)"

text \<open>
  A computation that never returns: from any events it throws, or it exits with a status
  of \<open>N\<close>.
\<close>

definition finishes :: "nat set \<Rightarrow> 'a io \<Rightarrow> bool" where
  "finishes N m =
     (\<forall>t. case fst (m t) of Returned x \<Rightarrow> False | Thrown e \<Rightarrow> True | Exited n \<Rightarrow> n \<in> N)"

text \<open>The events that create a directory or write a file.\<close>

definition disk_write :: "event \<Rightarrow> bool" where
  "disk_write e = (case e of Mkdir d \<Rightarrow> True | WriteFile f c \<Rightarrow> True | _ \<Rightarrow> False)"

text \<open>The path that line 466 gives to \<^verbatim>\<open>findResumeFile\<close>.\<close>

definition requested :: "argv \<Rightarrow> json" where
  "requested a = js_or (Some (resumePathInput a)) (JStr ''resumes/Keshav-resume.docx'')"

text \<open>
  The resume is absent in the state \<open>t\<close> of the file system: the requested path is a
  string, and none of the candidate locations that \<^verbatim>\<open>findResumeFile\<close> builds from it exists.
\<close>

definition absent :: "platform \<Rightarrow> argv \<Rightarrow> event list \<Rightarrow> bool" where
  "absent p a t =
     (case requested a of
        JStr s \<Rightarrow> list_all (\<lambda>f. \<not> existsSync p t f) (candidates p s)
      | _ \<Rightarrow> False)"

subsection \<open>The documented shapes of a response\<close>

text \<open>
  The words of the specification for C2: the documented shapes, tried in a fixed order,
  the text of the first one that matches, and the whole response serialised when none
  matches. The shapes are the direct \<^verbatim>\<open>output_text\<close> field; the first candidate's content as
  a string, as a list of parts, its \<^verbatim>\<open>output\<close> list, its nested message; and the top-level
  \<^verbatim>\<open>output\<close> list. This second definition is pure: a property is looked up with \<open>field\<close>,
  a value is printed with \<open>show_js\<close>, and nothing throws. A shape that matches selects
  either a text, or a list of parts, or a list of items; the text of a list is the texts
  of its elements joined by line feeds.
\<close>

datatype shape =
    OutputText
  | CandidateString
  | CandidateParts
  | CandidateOutput
  | CandidateMessage
  | TopLevelOutput

datatype selection =
    Direct string
  | Parts "json list"
  | Items "json list"

definition field :: "json \<Rightarrow> string \<Rightarrow> json option" where
  "field j k = (case j of JObj kvs \<Rightarrow> map_of kvs k | _ \<Rightarrow> None)"

fun show_js :: "json \<Rightarrow> string" where
  "show_js JNull = ''null''"
| "show_js (JBool b) = (if b then ''true'' else ''false'')"
| "show_js (JNum s) = s"
| "show_js (JStr s) = s"
| "show_js (JArr xs) = intercalate '','' (map (\<lambda>x. if x = JNull then [] else show_js x) xs)"
| "show_js (JObj kvs) = ''[object Object]''"

text \<open>
  The value printed for an item: its \<^verbatim>\<open>text\<close> when that is truthy, the item serialised
  otherwise. A part that is a string is printed as it is, every other part as an item.
\<close>

definition item_val :: "json \<Rightarrow> json" where
  "item_val p =
     (case field p ''text'' of
        Some v \<Rightarrow> if truthy v then v else JStr (JSON_stringify p)
      | None \<Rightarrow> JStr (JSON_stringify p))"

definition part_val :: "json \<Rightarrow> json" where
  "part_val p = (case p of JStr s \<Rightarrow> p | _ \<Rightarrow> item_val p)"

fun sel_text :: "selection \<Rightarrow> string" where
  "sel_text (Direct s) = s"
| "sel_text (Parts ps) = intercalate [CHR 0x0A] (map (\<lambda>p. show_js (part_val p)) ps)"
| "sel_text (Items xs) = intercalate [CHR 0x0A] (map (\<lambda>x. show_js (item_val x)) xs)"

definition first_candidate :: "json \<Rightarrow> json option" where
  "first_candidate j =
     (case field j ''candidates'' of
        Some (JArr (c # cs)) \<Rightarrow> if truthy c then Some c else None
      | _ \<Rightarrow> None)"

text \<open>What a shape of the first candidate \<open>c\<close> selects, when \<open>c\<close> has that shape.\<close>

fun candidate_shape :: "shape \<Rightarrow> json \<Rightarrow> selection option" where
  "candidate_shape CandidateString c =
     (case field c ''content'' of Some (JStr s) \<Rightarrow> Some (Direct s) | _ \<Rightarrow> None)"
| "candidate_shape CandidateParts c =
     (case field c ''content'' of Some (JArr ps) \<Rightarrow> Some (Parts ps) | _ \<Rightarrow> None)"
| "candidate_shape CandidateOutput c =
     (case field c ''output'' of Some (JArr os) \<Rightarrow> Some (Items os) | _ \<Rightarrow> None)"
| "candidate_shape CandidateMessage c =
     (case field c ''message'' of
        Some m \<Rightarrow>
          (case field m ''content'' of
             Some (JStr s) \<Rightarrow> if truthy m \<and> s \<noteq> [] then Some (Direct s) else None
           | Some (JArr cs) \<Rightarrow> if truthy m then Some (Items cs) else None
           | _ \<Rightarrow> None)
      | None \<Rightarrow> None)"
| "candidate_shape sh c = None"

text \<open>What a shape of the response \<open>j\<close> selects, when \<open>j\<close> has that shape.\<close>

fun shape_sel :: "shape \<Rightarrow> json \<Rightarrow> selection option" where
  "shape_sel OutputText j =
     (case field j ''output_text'' of Some (JStr s) \<Rightarrow> Some (Direct s) | _ \<Rightarrow> None)"
| "shape_sel TopLevelOutput j =
     (case field j ''output'' of
        Some (JArr (o0 # os)) \<Rightarrow>
          (case field o0 ''content'' of
             Some (JArr ps) \<Rightarrow> if truthy o0 then Some (Items ps) else None
           | _ \<Rightarrow> None)
      | _ \<Rightarrow> None)"
| "shape_sel sh j =
     (case first_candidate j of Some c \<Rightarrow> candidate_shape sh c | None \<Rightarrow> None)"

definition shapes :: "shape list" where
  "shapes =
     [OutputText, CandidateString, CandidateParts, CandidateOutput, CandidateMessage,
      TopLevelOutput]"

fun first_match :: "shape list \<Rightarrow> json \<Rightarrow> selection option" where
  "first_match [] j = None"
| "first_match (sh # shs) j =
     (case shape_sel sh j of Some sel \<Rightarrow> Some sel | None \<Rightarrow> first_match shs j)"

definition spec_extract :: "json \<Rightarrow> string" where
  "spec_extract j =
     (case first_match shapes j of Some sel \<Rightarrow> sel_text sel | None \<Rightarrow> JSON_stringify j)"

text \<open>
  The values that \<^verbatim>\<open>ToString\<close> converts: every value but an object with an own property
  named \<^verbatim>\<open>toString\<close>, and but an array that holds a value it does not convert.
\<close>

fun printable :: "json \<Rightarrow> bool" where
  "printable (JArr xs) = (\<forall>x \<in> set xs. printable x)"
| "printable (JObj kvs) = (''toString'' \<notin> fst ` set kvs)"
| "printable j = True"

text \<open>
  A selection is sound when its list holds no \<^verbatim>\<open>null\<close> and the value printed for each of
  its elements is one that \<^verbatim>\<open>ToString\<close> converts. A response is sound when the first shape
  that matches selects a sound selection, or when no shape matches.
\<close>

fun sel_ok :: "selection \<Rightarrow> bool" where
  "sel_ok (Direct s) = True"
| "sel_ok (Parts ps) = (\<forall>p \<in> set ps. p \<noteq> JNull \<and> printable (part_val p))"
| "sel_ok (Items xs) = (\<forall>x \<in> set xs. x \<noteq> JNull \<and> printable (item_val x))"

definition sound :: "json \<Rightarrow> bool" where
  "sound j = (case first_match shapes j of Some sel \<Rightarrow> sel_ok sel | None \<Rightarrow> True)"

text \<open>
  What lines 365, 368, 372 and 377 do with a selection: the list is mapped with one of the
  two arrow functions and joined.
\<close>

fun run_sel :: "selection \<Rightarrow> err + string" where
  "run_sel (Direct s) = Inr s"
| "run_sel (Parts ps) = map_join part_text ps"
| "run_sel (Items xs) = map_join text_or_json xs"

definition run_opt :: "selection option \<Rightarrow> err + string option" where
  "run_opt r =
     (case r of None \<Rightarrow> Inr None | Some sel \<Rightarrow> bindE (run_sel sel) (\<lambda>s. Inr (Some s)))"

subsection \<open>The values of a flag\<close>

text \<open>
  The values that \<^verbatim>\<open>minimist\<close> gives a flag: a string, a number, a boolean, an object
  when the flag is written with a dot (\<^verbatim>\<open>--max-iterations.toString x\<close> gives the object
  with the one property \<^verbatim>\<open>toString\<close>), an array when the flag is repeated, and nothing
  (\<open>None\<close>) when the flag is absent. Such a value is convertible when \<^verbatim>\<open>ToString\<close>
  converts it.
\<close>

definition convertible :: "json option \<Rightarrow> bool" where
  "convertible v = (case v of None \<Rightarrow> True | Some j \<Rightarrow> printable j)"

section \<open>Concrete runs\<close>

text \<open>
  A platform, an environment and flags on which the definitions can be evaluated: every
  call succeeds, no file exists, and the remote end answers 200 with a body that is not
  JSON. Paths are joined with a slash, and \<open>replace_first\<close> replaces the first
  occurrence of a pattern, for a replacement without dollar signs.
\<close>

fun replace_first :: "string \<Rightarrow> string \<Rightarrow> string \<Rightarrow> string" where
  "replace_first [] pat r = (if pat = [] then r else [])"
| "replace_first (c # cs) pat r =
     (if prefix pat (c # cs) then r @ drop (length pat) (c # cs)
      else c # replace_first cs pat r)"

definition plain_platform :: platform where
  "plain_platform =
     \<lparr>fetch_available = True,
      fetch = (\<lambda>t u b. Inr \<lparr>r_ok = True, r_status = 200, r_json = None, r_text = None\<rparr>),
      existsSync = (\<lambda>t f. False),
      mkdirSync = (\<lambda>t f. None),
      writeFileSync = (\<lambda>t f c. None),
      readFileSync = (\<lambda>t f. Inr []),
      extractRawText = (\<lambda>b. Inr b),
      marked_parse = (\<lambda>m. Inr m),
      str_replace = replace_first,
      puppeteer_launch = (\<lambda>t. None),
      browser_newPage = (\<lambda>t. None),
      page_setContent = (\<lambda>t h. None),
      page_pdf = (\<lambda>t f. None),
      browser_close = (\<lambda>t. None),
      JSON_parse_ok = (\<lambda>s. False),
      parseInt10 = (\<lambda>s. None),
      path_isAbsolute = (\<lambda>f. prefix ''/'' f),
      path_arg_error = (\<lambda>v. ''TypeError: The path argument must be of type string''),
      path_join = (\<lambda>xs. intercalate ''/'' xs),
      path_basename = (\<lambda>f. rev (takeWhile (\<lambda>c. c \<noteq> CHR ''/'') (rev f))),
      toLowerCase = map lower,
      cwd = ''/work'',
      dirname = ''/work/scripts''\<rparr>"

definition plain_environ :: environ where
  "plain_environ =
     \<lparr>env_GEMINI_API_KEY = Some ''k'', env_GEMINI_MODEL = None,
      env_MAX_OUTPUT_TOKENS = None\<rparr>"

definition plain_argv :: argv where
  "plain_argv =
     \<lparr>arg_job_title = None, arg_jobTitle = None, arg_job_desc = None, arg_jobDesc = None,
      arg_job_description = None, arg_company = None, arg_resume_path = None,
      arg_max_iterations = None\<rparr>"

definition unparsable_ok :: response where
  "unparsable_ok = \<lparr>r_ok = True, r_status = 200, r_json = None, r_text = None\<rparr>"

text \<open>
  Four responses: one whose list of parts holds \<^verbatim>\<open>null\<close>; one with two parts; one whose
  part has a text that is an object with a property \<^verbatim>\<open>toString\<close>; and one with a direct
  text and a \<^verbatim>\<open>null\<close> in a list that no shape reads.
\<close>

definition null_part :: json where
  "null_part = JObj [(''candidates'', JArr [JObj [(''content'', JArr [JNull])]])]"

definition two_parts :: json where
  "two_parts =
     JObj [(''candidates'',
            JArr [JObj [(''content'', JArr [JObj [(''text'', JStr ''Hello'')], JStr ''world''])]])]"

definition unprintable_part :: json where
  "unprintable_part =
     JObj [(''candidates'',
            JArr [JObj [(''content'', JArr [JObj [(''text'', JObj [(''toString'', JStr ''x'')])]])]])]"

definition stray_null :: json where
  "stray_null = JObj [(''output_text'', JStr ''x''), (''meta'', JArr [JNull])]"

text \<open>
  Two failing answers: status 500 with the JSON body \<^verbatim>\<open>false\<close>; status 502 with a body
  that is not JSON, such as the text \<^verbatim>\<open>Bad Gateway\<close>, so that \<^verbatim>\<open>res.json()\<close> rejects, and
  \<^verbatim>\<open>res.text()\<close> after it.
\<close>

definition false_body :: response where
  "false_body = \<lparr>r_ok = False, r_status = 500, r_json = Some (JBool False), r_text = None\<rparr>"

definition gateway_body :: response where
  "gateway_body =
     \<lparr>r_ok = False, r_status = 502, r_json = None, r_text = None\<rparr>"

definition false_body_platform :: platform where
  "false_body_platform = plain_platform\<lparr>fetch := (\<lambda>t u b. Inr false_body)\<rparr>"

text \<open>The first request is answered with \<open>r\<close>, every later one with \<open>r'\<close>.\<close>

definition answering :: "response \<Rightarrow> response \<Rightarrow> platform" where
  "answering r r' = plain_platform\<lparr>fetch := (\<lambda>t u b. if t = [] then Inr r else Inr r')\<rparr>"

text \<open>
  A platform on which the resume is read and \<^verbatim>\<open>mammoth\<close> gives a text with a leading
  space, carriage returns and a trailing no-break space.
\<close>

definition docx_platform :: platform where
  "docx_platform =
     plain_platform\<lparr>readFileSync := (\<lambda>t f. Inr ''PK''),
       extractRawText := (\<lambda>b. Inr ('' Jane Doe'' @ [CHR 0x0D, CHR 0x0A] @ ''Engineer''
                                   @ [CHR 0x0D, CHR 0x0A, CHR 0xC2, CHR 0xA0]))\<rparr>"

text \<open>
  A platform on which a whole run succeeds: the resume and the output directory exist,
  and every request is answered 200 with a direct text that holds a JSON object.
\<close>

definition answer_ok :: response where
  \<open>answer_ok =
     \<lparr>r_ok = True, r_status = 200,
      r_json = Some (JObj [(''output_text'', JStr ''# Jane {"gaps":[]} ok'')]),
      r_text = None\<rparr>\<close>

definition happy_platform :: platform where
  "happy_platform =
     plain_platform
       \<lparr>fetch := (\<lambda>t u b. Inr answer_ok),
        existsSync := (\<lambda>t f. f = ''/work/resumes/Keshav-resume.docx'' \<or> f = ''/work/output''),
        readFileSync := (\<lambda>t f. Inr ''PK''),
        extractRawText := (\<lambda>b. Inr ''Jane Doe'')\<rparr>"

text \<open>A platform on which the export to PDF throws.\<close>

definition pdf_fails_platform :: platform where
  "pdf_fails_platform =
     plain_platform\<lparr>page_pdf := (\<lambda>t f. Some ''Error: Protocol error (Page.printToPDF)'')\<rparr>"

text \<open>
  Two platforms with a failing disk. On the first the resume and the output directory
  exist, and every read and every write throws. On the second nothing exists and no
  directory can be created.
\<close>

definition broken_disk_platform :: platform where
  "broken_disk_platform =
     happy_platform
       \<lparr>readFileSync := (\<lambda>t f. Inl ''Error: EACCES: permission denied''),
        writeFileSync := (\<lambda>t f c. Some ''Error: EROFS: read-only file system'')\<rparr>"

definition readonly_platform :: platform where
  "readonly_platform =
     plain_platform\<lparr>mkdirSync := (\<lambda>t f. Some ''Error: EROFS: read-only file system'')\<rparr>"

text \<open>
  A platform on which nothing exists when the run starts, a directory exists once it has
  been created, and a directory cannot be read as a file; and the flags of a run whose
  resume path is \<^verbatim>\<open>output\<close>, and of a run whose resume path is the number 5.
\<close>

definition fresh_platform :: platform where
  "fresh_platform =
     plain_platform
       \<lparr>existsSync := (\<lambda>t f. Mkdir f \<in> set t),
        readFileSync := (\<lambda>t f. Inl ''Error: EISDIR: illegal operation on a directory, read'')\<rparr>"

definition output_argv :: argv where
  "output_argv = plain_argv\<lparr>arg_resume_path := Some (JStr ''output'')\<rparr>"

definition numeric_argv :: argv where
  "numeric_argv = plain_argv\<lparr>arg_resume_path := Some (JNum ''5'')\<rparr>"

text \<open>
  The value of the flag written \<^verbatim>\<open>--max-iterations.toString x\<close>, and an environment
  without the API key.
\<close>

definition dotted_flag :: "json option" where
  "dotted_flag = Some (JObj [(''toString'', JStr ''x'')])"

definition unset_environ :: environ where
  "unset_environ = plain_environ\<lparr>env_GEMINI_API_KEY := None\<rparr>"

text \<open>
  A platform on which the resume exists and cannot be read, while the output directory
  exists and can be written.
\<close>

definition denied_platform :: platform where
  "denied_platform =
     happy_platform\<lparr>readFileSync := (\<lambda>t f. Inl ''Error: EACCES: permission denied'')\<rparr>"

text \<open>
  A platform whose \<^verbatim>\<open>JSON.parse\<close> accepts one text, the empty list of gaps, and three
  answers of the review call: one that holds that text, one that holds two objects, and
  one that holds braces and no JSON.
\<close>

definition json_platform :: platform where
  \<open>json_platform = plain_platform\<lparr>JSON_parse_ok := (\<lambda>s. s = ''{"gaps":[]}'')\<rparr>\<close>

definition review_with_json :: string where
  \<open>review_with_json = ''Here you go: {"gaps":[]} Regards''\<close>

definition review_two_objects :: string where
  \<open>review_two_objects = ''First {"a":1} then {"b":2} end''\<close>

definition review_without_json :: string where
  "review_without_json = ''Gaps: {missing: cloud, (see above}. Regards''"

section \<open>Lemmas on computations\<close>

lemma no_exit_ret [simp]: "no_exit (ret x)"
  and no_exit_throw [simp]: "no_exit (throw e)"
  and no_exit_lift [simp]: "no_exit (lift r)"
  and no_exit_lib [simp]: "no_exit (lib r')"
  by (auto simp: no_exit_def ret_def throw_def lift_def lib_def split: sum.splits)

lemma no_exit_fs [simp]:
  "no_exit (fs_existsSync p f)" "no_exit (fs_mkdirSync p f)" "no_exit (fs_writeFileSync p f c)"
  "no_exit (fs_readFileSync p f)" "no_exit (browser_call g ev)" "no_exit (postJson p u b)"
  by (auto simp: no_exit_def fs_existsSync_def fs_mkdirSync_def fs_writeFileSync_def
      fs_readFileSync_def browser_call_def postJson_def split: option.splits sum.splits)

lemma no_exit_then: "no_exit m \<Longrightarrow> (\<And>x. no_exit (f x)) \<Longrightarrow> no_exit (then_io m f)"
  unfolding no_exit_def then_io_def
  by (auto split: prod.splits outcome.splits) (metis fst_conv)+

lemma no_exit_if: "no_exit a \<Longrightarrow> no_exit b \<Longrightarrow> no_exit (if c then a else b)"
  by simp

lemma emits_ret [simp]: "emits P (ret x)"
  and emits_throw [simp]: "emits P (throw e)"
  and emits_exit [simp]: "emits P (process_exit n)"
  and emits_lift [simp]: "emits P (lift r)"
  and emits_lib [simp]: "emits P (lib r')"
  and emits_exists [simp]: "emits P (fs_existsSync p f)"
  by (auto simp: emits_def ret_def throw_def process_exit_def lift_def lib_def
      fs_existsSync_def split: sum.splits)

lemma emits_mkdir: "P (Mkdir f) \<Longrightarrow> emits P (fs_mkdirSync p f)"
  and emits_write: "P (WriteFile f c) \<Longrightarrow> emits P (fs_writeFileSync p f c)"
  and emits_read: "P (ReadFile f) \<Longrightarrow> emits P (fs_readFileSync p f)"
  and emits_browser: "P ev \<Longrightarrow> emits P (browser_call g ev)"
  and emits_post: "P (Post u (JSON_stringify b)) \<Longrightarrow> emits P (postJson p u b)"
  by (auto simp: emits_def fs_mkdirSync_def fs_writeFileSync_def fs_readFileSync_def
      browser_call_def postJson_def split: option.splits sum.splits)

lemma emits_then:
  assumes "emits P m" and "\<And>x. emits P (f x)"
  shows "emits P (then_io m f)"
  unfolding emits_def
proof
  fix t
  from assms(1) obtain new where new: "snd (m t) = t @ new" "list_all P new"
    unfolding emits_def by blast
  show "\<exists>new. snd (then_io m f t) = t @ new \<and> list_all P new"
  proof (cases "fst (m t)")
    case (Returned x)
    from assms(2) [of x] obtain new' where
      "snd (f x (t @ new)) = (t @ new) @ new'" "list_all P new'"
      unfolding emits_def by blast
    with new Returned show ?thesis
      by (auto simp: then_io_def split: prod.splits intro!: exI [of _ "new @ new'"])
  next
    case (Thrown e)
    with new show ?thesis
      by (auto simp: then_io_def split: prod.splits)
  next
    case (Exited n)
    with new show ?thesis
      by (auto simp: then_io_def split: prod.splits)
  qed
qed

lemma emits_try_catch:
  assumes "emits P m" and "\<And>e. emits P (h e)"
  shows "emits P (try_catch m h)"
  unfolding emits_def
proof
  fix t
  from assms(1) obtain new where new: "snd (m t) = t @ new" "list_all P new"
    unfolding emits_def by blast
  show "\<exists>new. snd (try_catch m h t) = t @ new \<and> list_all P new"
  proof (cases "fst (m t)")
    case (Thrown e)
    from assms(2) [of e] obtain new' where
      "snd (h e (t @ new)) = (t @ new) @ new'" "list_all P new'"
      unfolding emits_def by blast
    with new Thrown show ?thesis
      by (auto simp: try_catch_def split: prod.splits intro!: exI [of _ "new @ new'"])
  next
    case (Returned x)
    with new show ?thesis
      by (auto simp: try_catch_def split: prod.splits)
  next
    case (Exited n)
    with new show ?thesis
      by (auto simp: try_catch_def split: prod.splits)
  qed
qed

lemma emits_if: "emits P a \<Longrightarrow> emits P b \<Longrightarrow> emits P (if c then a else b)"
  by simp

lemma emits_ensure_output: "P (Mkdir (out_dir p)) \<Longrightarrow> emits P (ensure_output p)"
  unfolding ensure_output_def
  by (intro emits_then emits_if emits_mkdir) simp_all

lemma no_exit_ensure_output [simp]: "no_exit (ensure_output p)"
  unfolding ensure_output_def
  by (intro no_exit_then no_exit_if) simp_all

lemma then_io_Returned: "m t = (Returned x, t') \<Longrightarrow> then_io m f t = f x t'"
  and then_io_Thrown: "m t = (Thrown e, t') \<Longrightarrow> then_io m f t = (Thrown e, t')"
  and then_io_Exited: "m t = (Exited n, t') \<Longrightarrow> then_io m f t = (Exited n, t')"
  by (simp_all add: then_io_def)

lemma pairI: "fst r = a \<Longrightarrow> snd r = b \<Longrightarrow> r = (a, b)"
  by auto

section \<open>Lemmas on the generation client\<close>

text \<open>Whatever \<^verbatim>\<open>extractTextFromResponseJson\<close> throws is a \<^verbatim>\<open>TypeError\<close>.\<close>

lemma type_errs_Inr [simp]: "type_errs (Inr x)"
  by (simp add: type_errs_def)

lemma type_errs_bindE:
  "type_errs m \<Longrightarrow> (\<And>x. m = Inr x \<Longrightarrow> type_errs (f x)) \<Longrightarrow> type_errs (bindE m f)"
  by (cases m) (auto simp: type_errs_def bindE_def)

lemma type_errs_get_prop [simp]: "type_errs (get_prop v k)"
  by (auto simp: type_errs_def get_prop_def cannot_read_def split: option.splits json.splits)

lemma type_errs_ToString: "type_errs (ToString v)" and type_errs_ToStrings: "type_errs (ToStrings vs)"
  by (induction v and vs rule: ToString_ToStrings.induct)
     (auto intro!: type_errs_bindE simp: type_errs_def[of "Inl _"])

lemma type_errs_join [simp]: "type_errs (join sep xs)"
  by (auto simp: join_def intro!: type_errs_bindE type_errs_ToStrings)

lemma type_errs_mapE: "(\<And>x. type_errs (f x)) \<Longrightarrow> type_errs (mapE f xs)"
  by (induction xs) (auto intro!: type_errs_bindE)

lemma type_errs_text_or_json [simp]: "type_errs (text_or_json x)"
  by (auto simp: text_or_json_def intro!: type_errs_bindE)

lemma type_errs_part_text [simp]: "type_errs (part_text x)"
  by (auto simp: part_text_def split: json.splits)

lemma type_errs_map_join: "(\<And>x. type_errs (f x)) \<Longrightarrow> type_errs (map_join f xs)"
  by (auto simp: map_join_def intro!: type_errs_bindE type_errs_mapE)

lemma type_errs_candidate_text [simp]: "type_errs (candidate_text c)"
  unfolding candidate_text_def
  by (auto intro!: type_errs_bindE type_errs_map_join split: option.splits json.splits)

lemma type_errs_top_output_text [simp]: "type_errs (top_output_text c)"
  unfolding top_output_text_def
  by (auto intro!: type_errs_bindE type_errs_map_join split: option.splits json.splits)

lemma type_errs_extract: "type_errs (extractTextFromResponseJson j)"
  unfolding extractTextFromResponseJson_def
  by (auto intro!: type_errs_bindE type_errs_map_join split: option.splits json.splits)

lemma snd_lift [simp]: "snd (lift r t) = t"
  by (cases r) (auto simp: lift_def ret_def throw_def)

lemma fst_lift_not_generation: "type_errs r \<Longrightarrow> fst (lift r t) \<noteq> Thrown (GenerationError m)"
  by (cases r) (auto simp: lift_def ret_def throw_def type_errs_def split: err.splits)

lemma callGemini_no_fetch:
  "\<not> fetch_available p \<Longrightarrow> callGemini p env prompt ops t = (Thrown FetchUnavailable, t)"
  by (simp add: callGemini_def throw_def)

lemma callGemini_reject1:
  "fetch_available p \<Longrightarrow>
   fetch p t (url env ops) (JSON_stringify (body1 p env prompt ops)) = Inl e \<Longrightarrow>
   callGemini p env prompt ops t
     = (Thrown (LibError e), t @ [Post (url env ops) (JSON_stringify (body1 p env prompt ops))])"
  by (simp add: callGemini_def then_io_def postJson_def)

lemma callGemini_ok1:
  "fetch_available p \<Longrightarrow>
   fetch p t (url env ops) (JSON_stringify (body1 p env prompt ops)) = Inr r1 \<Longrightarrow> r_ok r1 \<Longrightarrow>
   callGemini p env prompt ops t
     = lift (extractTextFromResponseJson (a_json (attempt_of r1)))
         (t @ [Post (url env ops) (JSON_stringify (body1 p env prompt ops))])"
  by (simp add: callGemini_def then_io_def postJson_def attempt_of_def)

lemma callGemini_reject2:
  "fetch_available p \<Longrightarrow>
   fetch p t (url env ops) (JSON_stringify (body1 p env prompt ops)) = Inr r1 \<Longrightarrow> \<not> r_ok r1 \<Longrightarrow>
   fetch p (t @ [Post (url env ops) (JSON_stringify (body1 p env prompt ops))]) (url env ops)
     (JSON_stringify (body2 prompt)) = Inl e \<Longrightarrow>
   callGemini p env prompt ops t
     = (Thrown (LibError e), t @ [Post (url env ops) (JSON_stringify (body1 p env prompt ops)),
                                  Post (url env ops) (JSON_stringify (body2 prompt))])"
  by (simp add: callGemini_def then_io_def postJson_def attempt_of_def)

lemma callGemini_ok2:
  "fetch_available p \<Longrightarrow>
   fetch p t (url env ops) (JSON_stringify (body1 p env prompt ops)) = Inr r1 \<Longrightarrow> \<not> r_ok r1 \<Longrightarrow>
   fetch p (t @ [Post (url env ops) (JSON_stringify (body1 p env prompt ops))]) (url env ops)
     (JSON_stringify (body2 prompt)) = Inr r2 \<Longrightarrow> r_ok r2 \<Longrightarrow>
   callGemini p env prompt ops t
     = lift (extractTextFromResponseJson (a_json (attempt_of r2)))
         (t @ [Post (url env ops) (JSON_stringify (body1 p env prompt ops)),
               Post (url env ops) (JSON_stringify (body2 prompt))])"
  by (simp add: callGemini_def then_io_def postJson_def attempt_of_def)

lemma a_ok_attempt_of [simp]: "a_ok (attempt_of r) = r_ok r"
  by (simp add: attempt_of_def)

lemma callGemini_fail2:
  "fetch_available p \<Longrightarrow>
   fetch p t (url env ops) (JSON_stringify (body1 p env prompt ops)) = Inr r1 \<Longrightarrow> \<not> r_ok r1 \<Longrightarrow>
   fetch p (t @ [Post (url env ops) (JSON_stringify (body1 p env prompt ops))]) (url env ops)
     (JSON_stringify (body2 prompt)) = Inr r2 \<Longrightarrow> \<not> r_ok r2 \<Longrightarrow>
   callGemini p env prompt ops t
     = (Thrown (GenerationError (failure_message (attempt_of r1) (attempt_of r2))),
        t @ [Post (url env ops) (JSON_stringify (body1 p env prompt ops)),
             Post (url env ops) (JSON_stringify (body2 prompt))])"
  by (simp add: callGemini_def then_io_def postJson_def failure_message_def throw_def)

lemma sublist_first: "sublist x (a @ x @ b)"
  by (rule sublist_appendI)

lemma sublist_second: "sublist y (a @ x @ b @ y)"
  using sublist_appendI [of y "a @ x @ b" "[]"] by simp

lemma errText_json:
  "r_json r = Some j \<Longrightarrow> truthy j \<Longrightarrow> errText (attempt_of r) = JSON_stringify j"
  by (simp add: errText_def attempt_of_def)

lemma msg_of_json:
  "r_json r = Some j \<Longrightarrow> truthy j \<Longrightarrow> msg_of (attempt_of r) = JSON_stringify j"
  by (simp add: msg_of_def attempt_of_def)

lemma sublist_if: "sublist x a \<Longrightarrow> sublist x b \<Longrightarrow> sublist x (if c then a else b)"
  by simp

lemma failure_message_json1:
  assumes "r_json r1 = Some j" and "truthy j"
  shows "sublist (JSON_stringify j) (failure_message (attempt_of r1) a2)"
  unfolding failure_message_def errText_json [OF assms] msg_of_json [OF assms]
  by (intro sublist_if sublist_first)

lemma failure_message_json2:
  assumes "r_json r2 = Some j" and "truthy j"
  shows "sublist (JSON_stringify j) (failure_message a1 (attempt_of r2))"
  unfolding failure_message_def msg_of_json [OF assms]
  by (intro sublist_if sublist_second)

section \<open>Lemmas on the extraction of the text\<close>

lemma get_prop_field: "j \<noteq> JNull \<Longrightarrow> get_prop (Some j) k = Inr (field j k)"
  by (cases j) (simp_all add: get_prop_def field_def)

lemma ToString_printable:
  "ToString v
     = (if printable v then Inr (show_js v)
        else Inl (TypeError ''Cannot convert object to primitive value''))"
  and ToStrings_printable:
  "ToStrings vs
     = (if \<forall>x \<in> set vs. printable x
        then Inr (map (\<lambda>x. if x = JNull then [] else show_js x) vs)
        else Inl (TypeError ''Cannot convert object to primitive value''))"
  by (induction v and vs rule: ToString_ToStrings.induct) (auto simp: bindE_def)

text \<open>What the two arrow functions give.\<close>

lemma text_or_json_val: "p \<noteq> JNull \<Longrightarrow> text_or_json p = Inr (item_val p)"
  by (cases "field p ''text''")
     (simp_all add: text_or_json_def get_prop_field bindE_def truthy_u_def item_val_def)

lemma text_or_json_null: "text_or_json JNull = Inl (cannot_read ''null'' ''text'')"
  by (simp add: text_or_json_def get_prop_def bindE_def)

lemma part_text_val: "p \<noteq> JNull \<Longrightarrow> part_text p = Inr (part_val p)"
  by (cases p) (simp_all add: part_text_def part_val_def text_or_json_val)

lemma part_text_null: "part_text JNull = Inl (cannot_read ''null'' ''text'')"
  by (simp add: part_text_def text_or_json_null)

lemma item_val_not_null: "item_val p \<noteq> JNull"
  by (auto simp: item_val_def split: option.splits)

lemma part_val_not_null: "p \<noteq> JNull \<Longrightarrow> part_val p \<noteq> JNull"
  by (cases p) (simp_all add: part_val_def item_val_not_null)

lemma mapE_vals:
  assumes "\<And>x. x \<noteq> JNull \<Longrightarrow> f x = Inr (g x)" and "f JNull = Inl e"
  shows "mapE f xs = (if JNull \<in> set xs then Inl e else Inr (map g xs))"
proof (induction xs)
  case Nil
  show ?case by simp
next
  case (Cons x xs)
  show ?case
  proof (cases "x = JNull")
    case True
    then show ?thesis by (simp add: assms(2) bindE_def)
  next
    case False
    then show ?thesis by (simp add: assms(1) Cons.IH bindE_def)
  qed
qed

lemma join_vals:
  assumes "JNull \<notin> set vs"
  shows "join sep vs
     = (if \<forall>v \<in> set vs. printable v then Inr (intercalate sep (map show_js vs))
        else Inl (TypeError ''Cannot convert object to primitive value''))"
proof -
  have eq: "map (\<lambda>x. if x = JNull then [] else show_js x) vs = map show_js vs"
    using assms by (induction vs) auto
  show ?thesis
  proof (cases "\<forall>v \<in> set vs. printable v")
    case True
    then have ts: "ToStrings vs = Inr (map (\<lambda>x. if x = JNull then [] else show_js x) vs)"
      by (simp add: ToStrings_printable)
    show ?thesis
      unfolding join_def ts eq bindE_def sum.case using True by simp
  next
    case False
    then have ts: "ToStrings vs = Inl (TypeError ''Cannot convert object to primitive value'')"
      by (simp add: ToStrings_printable)
    show ?thesis
      unfolding join_def ts bindE_def sum.case using False by simp
  qed
qed

lemma map_join_vals:
  assumes "\<And>x. x \<noteq> JNull \<Longrightarrow> f x = Inr (g x)" and "f JNull = Inl e"
    and "\<And>x. x \<noteq> JNull \<Longrightarrow> g x \<noteq> JNull"
  shows "map_join f xs
     = (if JNull \<in> set xs then Inl e
        else if \<forall>x \<in> set xs. printable (g x)
        then Inr (intercalate [CHR 0x0A] (map (\<lambda>x. show_js (g x)) xs))
        else Inl (TypeError ''Cannot convert object to primitive value''))"
proof -
  note m = mapE_vals [of f g e xs, OF assms(1) assms(2)]
  show ?thesis
  proof (cases "JNull \<in> set xs")
    case True
    with m have me: "mapE f xs = Inl e"
      by simp
    show ?thesis
      unfolding map_join_def me bindE_def sum.case using True by simp
  next
    case False
    with m have me: "mapE f xs = Inr (map g xs)"
      by simp
    have "JNull \<notin> set (map g xs)"
    proof
      assume "JNull \<in> set (map g xs)"
      then obtain x where x: "x \<in> set xs" "g x = JNull"
        by (metis (no_types, lifting) imageE list.set_map)
      from x(1) False have "x \<noteq> JNull" by blast
      from assms(3) [OF this] x(2) show False by blast
    qed
    from join_vals [OF this, of "[CHR 0x0A]"]
    have j: "join [CHR 0x0A] (map g xs)
        = (if \<forall>x \<in> set xs. printable (g x)
           then Inr (intercalate [CHR 0x0A] (map (\<lambda>x. show_js (g x)) xs))
           else Inl (TypeError ''Cannot convert object to primitive value''))"
      by (simp add: comp_def)
    show ?thesis
      unfolding map_join_def me bindE_def sum.case j using False by simp
  qed
qed

lemmas map_join_items =
  map_join_vals [of text_or_json item_val, OF text_or_json_val text_or_json_null item_val_not_null]

lemmas map_join_parts =
  map_join_vals [of part_text part_val, OF part_text_val part_text_null part_val_not_null]

text \<open>A sound selection gives its text; on every other selection a \<^verbatim>\<open>TypeError\<close> is thrown.\<close>

lemma run_sel_sound: "sel_ok sel \<Longrightarrow> run_sel sel = Inr (sel_text sel)"
  by (cases sel) (auto simp: map_join_items map_join_parts)

lemma run_sel_unsound: "\<not> sel_ok sel \<Longrightarrow> \<exists>m. run_sel sel = Inl (TypeError m)"
  by (cases sel) (auto simp: map_join_items map_join_parts cannot_read_def)

lemma kind_cases:
  obtains (str) s where "v = Some (JStr s)"
  | (arr) xs where "v = Some (JArr xs)"
  | (other) "\<forall>s. v \<noteq> Some (JStr s)" and "\<forall>xs. v \<noteq> Some (JArr xs)"
  by (cases v) (auto split: json.splits)

lemma case_str_arr_other:
  "\<forall>s. v \<noteq> Some (JStr s) \<Longrightarrow> \<forall>xs. v \<noteq> Some (JArr xs) \<Longrightarrow>
   (case v of Some (JStr s) \<Rightarrow> A s | Some (JArr xs) \<Rightarrow> B xs | _ \<Rightarrow> C) = C"
  by (auto split: option.splits json.splits)

lemma case_arr_other:
  "\<forall>xs. v \<noteq> Some (JArr xs) \<Longrightarrow> (case v of Some (JArr xs) \<Rightarrow> B xs | _ \<Rightarrow> C) = C"
  by (auto split: option.splits json.splits)

lemma case_str_other:
  "\<forall>s. v \<noteq> Some (JStr s) \<Longrightarrow> (case v of Some (JStr s) \<Rightarrow> A s | _ \<Rightarrow> C) = C"
  by (auto split: option.splits json.splits)

lemmas case_other = case_str_arr_other case_arr_other case_str_other

lemma run_opt_simps [simp]:
  "run_opt None = Inr None"
  "run_opt (Some (Direct s)) = Inr (Some s)"
  "run_opt (Some (Parts ps)) = bindE (map_join part_text ps) (\<lambda>s. Inr (Some s))"
  "run_opt (Some (Items xs)) = bindE (map_join text_or_json xs) (\<lambda>s. Inr (Some s))"
  by (simp_all add: run_opt_def bindE_def)

text \<open>The nested message of a candidate.\<close>

lemma message_run:
  assumes "c \<noteq> JNull"
  shows "bindE (get_prop (Some c) ''message'') (\<lambda>message.
               if truthy_u message then
                 bindE (get_prop message ''content'') (\<lambda>mc.
                   if truthy_u mc then
                     (case mc of
                        Some (JStr s) \<Rightarrow> Inr (Some s)
                      | Some (JArr cs) \<Rightarrow> bindE (map_join text_or_json cs) (\<lambda>s. Inr (Some s))
                      | _ \<Rightarrow> Inr None)
                   else Inr None)
               else Inr None)
         = run_opt (candidate_shape CandidateMessage c)"
proof (cases "field c ''message''")
  case None
  then show ?thesis
    using assms by (simp add: get_prop_field bindE_def truthy_u_def)
next
  case (Some m)
  show ?thesis
  proof (cases "truthy m")
    case False
    then show ?thesis
      using assms Some
      by (simp add: get_prop_field bindE_def truthy_u_def split: option.splits json.splits)
  next
    case True
    then have nn: "m \<noteq> JNull" by auto
    show ?thesis
    proof (cases "field m ''content''" rule: kind_cases)
      case (str s)
      then show ?thesis
        using assms Some True nn
        by (simp add: get_prop_field bindE_def [of "Inr _"] truthy_u_def)
    next
      case (arr xs)
      then show ?thesis
        using assms Some True nn
        by (simp add: get_prop_field bindE_def [of "Inr _"] truthy_u_def)
    next
      case other
      then show ?thesis
        using assms Some True nn
        by (simp add: get_prop_field bindE_def [of "Inr _"] truthy_u_def case_other)
    qed
  qed
qed

lemma candidate_text_run:
  assumes "truthy c"
  shows "candidate_text c =
     run_opt (case candidate_shape CandidateString c of
            Some s \<Rightarrow> Some s
          | None \<Rightarrow>
            (case candidate_shape CandidateParts c of
               Some s \<Rightarrow> Some s
             | None \<Rightarrow>
               (case candidate_shape CandidateOutput c of
                  Some s \<Rightarrow> Some s
                | None \<Rightarrow> candidate_shape CandidateMessage c)))"
proof -
  have nn: "c \<noteq> JNull" using assms by auto
  note msg = message_run [OF nn]
  show ?thesis
  proof (cases "field c ''content''" rule: kind_cases)
    case (str s)
    then show ?thesis
      by (simp add: candidate_text_def get_prop_field [OF nn] bindE_def [of "Inr _"])
  next
    case (arr ps)
    then show ?thesis
      by (simp add: candidate_text_def get_prop_field [OF nn] bindE_def [of "Inr _"])
  next
    case other
    show ?thesis
    proof (cases "\<exists>os. field c ''output'' = Some (JArr os)")
      case True
      then obtain os where os: "field c ''output'' = Some (JArr os)" by blast
      then show ?thesis
        using other
        by (simp add: candidate_text_def get_prop_field [OF nn] bindE_def [of "Inr _"] case_other)
    next
      case False
      then have no: "\<forall>os. field c ''output'' \<noteq> Some (JArr os)" by blast
      have "candidate_text c = run_opt (candidate_shape CandidateMessage c)"
        unfolding candidate_text_def
        using other no msg
        by (simp add: get_prop_field [OF nn] case_other bindE_def [of "Inr _"])
      then show ?thesis
        using other no by (simp add: case_other)
    qed
  qed
qed

lemma top_output_text_run:
  assumes "truthy j"
  shows "top_output_text j = run_opt (shape_sel TopLevelOutput j)"
proof -
  have nn: "j \<noteq> JNull" using assms by auto
  show ?thesis
  proof (cases "\<exists>o0 os. field j ''output'' = Some (JArr (o0 # os)) \<and> truthy o0")
    case True
    then obtain o0 os where o: "field j ''output'' = Some (JArr (o0 # os))" "truthy o0"
      by blast
    then have n0: "o0 \<noteq> JNull" by auto
    show ?thesis
    proof (cases "\<exists>ps. field o0 ''content'' = Some (JArr ps)")
      case True
      then obtain ps where ps: "field o0 ''content'' = Some (JArr ps)" by blast
      then show ?thesis
        using o n0
        by (simp add: top_output_text_def get_prop_field nn bindE_def [of "Inr _"] first_elem_def
            truthy_u_def)
    next
      case False
      then have "\<forall>ps. field o0 ''content'' \<noteq> Some (JArr ps)" by blast
      then show ?thesis
        using o n0
        by (simp add: top_output_text_def get_prop_field nn bindE_def [of "Inr _"] first_elem_def
            truthy_u_def case_other)
    qed
  next
    case False
    then show ?thesis
      by (auto simp: top_output_text_def get_prop_field nn bindE_def [of "Inr _"] first_elem_def
          truthy_u_def split: option.splits json.splits list.splits)
  qed
qed

lemma candidates_block:
  "(case field j ''candidates'' of
      Some (JArr cs) \<Rightarrow>
        (if truthy_u (first_elem cs) then candidate_text (the (first_elem cs)) else Inr None)
    | _ \<Rightarrow> Inr None)
   = (case first_candidate j of Some c \<Rightarrow> candidate_text c | None \<Rightarrow> Inr None)"
  by (auto simp: first_candidate_def first_elem_def truthy_u_def
      split: option.splits json.splits list.splits)

lemma first_candidate_truthy: "first_candidate j = Some c \<Longrightarrow> truthy c"
  by (auto simp: first_candidate_def split: option.splits json.splits list.splits if_splits)

text \<open>
  The control flow of \<^verbatim>\<open>extractTextFromResponseJson\<close> on a truthy response: the first
  shape that matches is the one whose selection the code runs.
\<close>

lemma extract_run:
  assumes "truthy j"
  shows "extractTextFromResponseJson j
     = (case first_match shapes j of
          Some sel \<Rightarrow> run_sel sel
        | None \<Rightarrow> Inr (JSON_stringify j))"
proof -
  have nn: "j \<noteq> JNull" using assms by auto
  note top = top_output_text_run [OF assms]
  show ?thesis
  proof (cases "\<exists>s. field j ''output_text'' = Some (JStr s)")
    case True
    then show ?thesis
      using assms
      by (auto simp: extractTextFromResponseJson_def get_prop_field nn bindE_def shapes_def)
  next
    case False
    then have no: "\<forall>s. field j ''output_text'' \<noteq> Some (JStr s)" by blast
    have code: "extractTextFromResponseJson j =
        bindE (case first_candidate j of Some c \<Rightarrow> candidate_text c | None \<Rightarrow> Inr None)
          (\<lambda>r. case r of Some s \<Rightarrow> Inr s
             | None \<Rightarrow> bindE (run_opt (shape_sel TopLevelOutput j))
                 (\<lambda>r2. case r2 of Some s \<Rightarrow> Inr s | None \<Rightarrow> Inr (JSON_stringify j)))"
      using assms no top
      by (simp add: extractTextFromResponseJson_def get_prop_field nn case_other
          candidates_block bindE_def [of "Inr _"] del: shape_sel.simps(2))
    have fin: "bindE (run_opt r) (\<lambda>r2. case r2 of Some s \<Rightarrow> Inr s | None \<Rightarrow> Inr d)
        = (case r of Some sel \<Rightarrow> run_sel sel | None \<Rightarrow> Inr d)" for r d
      by (cases r) (auto simp: run_opt_def bindE_def split: sum.splits)
    show ?thesis
    proof (cases "first_candidate j")
      case None
      then show ?thesis
        using no
        by (simp add: code fin bindE_def [of "Inr _"] shapes_def case_other
            del: shape_sel.simps(2) split: option.splits)
    next
      case (Some c)
      note ct = candidate_text_run [OF first_candidate_truthy [OF Some]]
      have mid: "bindE (run_opt r) (\<lambda>r. case r of Some s \<Rightarrow> Inr s | None \<Rightarrow> k)
          = (case r of Some sel \<Rightarrow> run_sel sel | None \<Rightarrow> k)" for r k
        by (cases r) (auto simp: run_opt_def bindE_def split: sum.splits)
      show ?thesis
        using no Some
        by (simp add: code ct mid fin shapes_def case_other
            del: shape_sel.simps(2) run_opt_simps split: option.splits)
    qed
  qed
qed

section \<open>Lemmas on trimming\<close>

declare strip_lead.simps [simp del]

lemma strip_lead_suffix: "suffix (strip_lead ws s) s"
proof (induction ws s rule: strip_lead.induct)
  case (1 ws s)
  show ?case
  proof (cases "find (\<lambda>w. w \<noteq> [] \<and> prefix w s) ws")
    case None
    then show ?thesis by (subst strip_lead.simps) simp
  next
    case (Some w)
    from "1.IH" [OF Some] have "suffix (strip_lead ws (drop (length w) s)) (drop (length w) s)" .
    then have "suffix (strip_lead ws (drop (length w) s)) s"
      using suffix_drop suffix_order.trans by blast
    then show ?thesis using Some by (subst strip_lead.simps) simp
  qed
qed

lemma strip_lead_no_prefix:
  "w \<in> set ws \<Longrightarrow> w \<noteq> [] \<Longrightarrow> \<not> prefix w (strip_lead ws s)"
proof (induction ws s rule: strip_lead.induct)
  case (1 ws s)
  show ?case
  proof (cases "find (\<lambda>w. w \<noteq> [] \<and> prefix w s) ws")
    case None
    then have "\<not> prefix w s"
      using "1.prems" by (auto simp: find_None_iff)
    then show ?thesis using None by (subst strip_lead.simps) simp
  next
    case (Some w')
    from "1.IH" [OF Some "1.prems"] show ?thesis
      using Some by (subst strip_lead.simps) simp
  qed
qed

lemma ws_seqs_nonempty: "w \<in> set ws_seqs \<Longrightarrow> w \<noteq> []"
  by (auto simp: ws_seqs_def)

lemma trim_prefix: "prefix (trim s) (strip_lead ws_seqs s)"
proof -
  have "suffix (strip_lead (map rev ws_seqs) (rev (strip_lead ws_seqs s)))
          (rev (strip_lead ws_seqs s))"
    by (rule strip_lead_suffix)
  then show ?thesis
    by (simp add: trim_def suffix_to_prefix)
qed

lemma trim_subset: "set (trim s) \<subseteq> set s"
proof -
  have "set (trim s) \<subseteq> set (strip_lead ws_seqs s)"
    using trim_prefix set_mono_prefix by blast
  also have "\<dots> \<subseteq> set s"
    using strip_lead_suffix set_mono_suffix by blast
  finally show ?thesis .
qed

lemma trim_no_leading: "w \<in> set ws_seqs \<Longrightarrow> \<not> prefix w (trim s)"
proof
  assume w: "w \<in> set ws_seqs" and "prefix w (trim s)"
  then have "prefix w (strip_lead ws_seqs s)"
    using trim_prefix prefix_order.trans by blast
  then show False
    using strip_lead_no_prefix [OF w ws_seqs_nonempty [OF w]] by blast
qed

lemma trim_no_trailing: "w \<in> set ws_seqs \<Longrightarrow> \<not> suffix w (trim s)"
proof
  assume w: "w \<in> set ws_seqs" and "suffix w (trim s)"
  then have "prefix (rev w) (strip_lead (map rev ws_seqs) (rev (strip_lead ws_seqs s)))"
    by (simp add: trim_def suffix_to_prefix)
  moreover have "rev w \<in> set (map rev ws_seqs)" and "rev w \<noteq> []"
    using w ws_seqs_nonempty by auto
  ultimately show False
    using strip_lead_no_prefix by blast
qed

section \<open>Lemmas on the flags\<close>

lemma after_review_inert:
  "after_review p env (a\<lparr>arg_max_iterations := v\<rparr>) = after_review p env a"
  by (intro ext) (simp add: after_review_def jobTitle_def)

lemma from_resume_inert:
  "from_resume p env (a\<lparr>arg_max_iterations := v\<rparr>) = from_resume p env a"
  by (intro ext)
     (simp add: from_resume_def after_review_inert jobTitle_def jobDesc_def company_def)

lemma main_flow_inert:
  "main_flow p env (a\<lparr>arg_max_iterations := v\<rparr>) = main_flow p env a"
  unfolding main_flow_def main_try_def from_resume_inert resumePathInput_def
  by simp

lemma printable_js_or: "printable (js_or v (JNum ''1'')) = convertible v"
proof (cases v)
  case None
  then show ?thesis by (simp add: js_or_def truthy_u_def convertible_def)
next
  case (Some j)
  then show ?thesis
    by (cases j) (auto simp: js_or_def truthy_u_def convertible_def)
qed

lemma maxIterations_returns:
  "convertible v \<Longrightarrow> \<exists>n. maxIterations p (a\<lparr>arg_max_iterations := v\<rparr>) = Inr n"
  by (simp add: maxIterations_def ToString_printable printable_js_or bindE_def)

lemma maxIterations_throws:
  "\<not> convertible v \<Longrightarrow>
   maxIterations p (a\<lparr>arg_max_iterations := v\<rparr>)
     = Inl (TypeError ''Cannot convert object to primitive value'')"
  by (simp add: maxIterations_def ToString_printable printable_js_or bindE_def)

lemma script_cases:
  "GEMINI_API_KEY env = [] \<Longrightarrow> script p env a t = (Exited 1, t)"
  "GEMINI_API_KEY env \<noteq> [] \<Longrightarrow> maxIterations p a = Inl e \<Longrightarrow> script p env a t = (Thrown e, t)"
  "GEMINI_API_KEY env \<noteq> [] \<Longrightarrow> maxIterations p a = Inr n \<Longrightarrow>
     script p env a t = main_flow p env a t"
  by (simp_all add: script_def process_exit_def lift_def throw_def ret_def then_io_def)

section \<open>Lemmas on rendering\<close>

lemma emits_write_rendered_html: "emits file_event (write_rendered_html p md title)"
  unfolding write_rendered_html_def
  by (intro emits_then emits_if emits_read emits_write emits_ensure_output)
     (simp_all add: file_event_def)

lemma no_exit_write_rendered_html: "no_exit (write_rendered_html p md title)"
  unfolding write_rendered_html_def
  by (intro no_exit_then no_exit_if) simp_all

lemma print_pdf_cases:
  "print_pdf p filled out t = (Returned (), t @ [Launch, NewPage, SetContent filled, Pdf out, Close])
   \<or> (\<exists>e new. print_pdf p filled out t = (Thrown e, t @ new)
         \<and> new \<in> {[], [Launch], [Launch, NewPage], [Launch, NewPage, SetContent filled],
                    [Launch, NewPage, SetContent filled, Pdf out]})"
  by (auto simp: print_pdf_def then_io_def browser_call_def split: option.splits)

section \<open>Lemmas on the main flow\<close>

lemma finishes_exit: "n \<in> N \<Longrightarrow> finishes N (process_exit n)"
  by (simp add: finishes_def process_exit_def)

lemma finishes_then:
  assumes "no_exit m" and "\<And>x. finishes N (f x)"
  shows "finishes N (then_io m f)"
  unfolding finishes_def
proof
  fix t
  show "case fst (then_io m f t) of Returned x \<Rightarrow> False | Thrown e \<Rightarrow> True | Exited n \<Rightarrow> n \<in> N"
  proof (cases "fst (m t)")
    case (Returned x)
    then have "then_io m f t = f x (snd (m t))"
      by (simp add: then_io_Returned [OF pairI])
    with assms(2) [of x] show ?thesis by (simp add: finishes_def)
  next
    case (Thrown e)
    then have "then_io m f t = (Thrown e, snd (m t))"
      by (simp add: then_io_Thrown [OF pairI])
    then show ?thesis by simp
  next
    case (Exited n)
    with assms(1) show ?thesis by (simp add: no_exit_def)
  qed
qed

lemma finishes_mono: "finishes N m \<Longrightarrow> N \<subseteq> N' \<Longrightarrow> finishes N' m"
  by (auto simp: finishes_def split: outcome.splits)

lemma no_exit_callGemini [simp]: "no_exit (callGemini p env prompt ops)"
  unfolding callGemini_def
  by (intro no_exit_if no_exit_then) simp_all

lemma emits_callGemini: "emits (\<lambda>e. True) (callGemini p env prompt ops)"
  unfolding callGemini_def
  by (intro emits_if emits_then emits_post) simp_all

lemma no_exit_extractTextFromDocx [simp]: "no_exit (extractTextFromDocx p f)"
  unfolding extractTextFromDocx_def
  by (intro no_exit_then) simp_all

lemma no_exit_print_pdf: "no_exit (print_pdf p filled out)"
  unfolding print_pdf_def
  by (intro no_exit_then) simp_all

lemma no_exit_saveMarkdownAsPdf [simp]: "no_exit (saveMarkdownAsPdf p md out title)"
  unfolding saveMarkdownAsPdf_def
  by (intro no_exit_then no_exit_write_rendered_html no_exit_print_pdf)

lemma emits_saveMarkdownAsPdf: "emits (\<lambda>e. True) (saveMarkdownAsPdf p md out title)"
  unfolding saveMarkdownAsPdf_def write_rendered_html_def print_pdf_def
  by (intro emits_then emits_if emits_read emits_write emits_ensure_output emits_browser)
     simp_all

lemma no_exit_findResumeFile [simp]: "no_exit (findResumeFile p v)"
  by (cases v) (simp_all add: findResumeFile_def, simp add: no_exit_def)

lemma finishes_after_review: "finishes {0} (after_review p env a tailored raw)"
  unfolding after_review_def
  by (intro finishes_then finishes_exit) simp_all

lemma finishes_from_resume: "finishes {0} (from_resume p env a f)"
  unfolding from_resume_def
  by (intro finishes_then finishes_after_review) simp_all

lemma finishes_main_try: "finishes {0, 2} (main_try p env a)"
  unfolding main_try_def
  by (intro finishes_then) 
     (auto intro!: finishes_exit finishes_mono [OF finishes_from_resume] split: option.splits)

text \<open>The handler always ends the run with status 10.\<close>

lemma ensure_output_cases:
  "ensure_output p t =
     (if existsSync p t (out_dir p) then (Returned (), t)
      else (case mkdirSync p t (out_dir p) of
              Some e \<Rightarrow> (Thrown (LibError e), t)
            | None \<Rightarrow> (Returned (), t @ [Mkdir (out_dir p)])))"
  by (simp add: ensure_output_def then_io_def fs_existsSync_def fs_mkdirSync_def ret_def)

lemma on_error_status: "fst (on_error p e t) = Exited 10"
  by (simp add: on_error_def then_io_def try_catch_def ensure_output_cases fs_writeFileSync_def
      ret_def process_exit_def split: option.splits)

lemma uniq_subset: "set (uniq seen xs) \<subseteq> set xs"
  by (induction xs arbitrary: seen) auto

lemma uniq_nonempty: "[] \<notin> set (uniq seen xs)"
  by (induction xs arbitrary: seen) auto

lemma findResumeFile_cases:
  "(\<exists>e. findResumeFile p v t = (Thrown e, t))
   \<or> findResumeFile p v t = (Returned None, t)
   \<or> (\<exists>f. f \<noteq> [] \<and> findResumeFile p v t = (Returned (Some f), t))"
proof (cases "\<exists>s. v = JStr s")
  case False
  then show ?thesis
    by (cases v) (simp_all add: findResumeFile_def throw_def)
next
  case True
  then obtain s where v: "v = JStr s" by blast
  show ?thesis
  proof (cases "find (existsSync p t) (uniq [] (candidates p s))")
    case None
    then show ?thesis by (simp add: v findResumeFile_def)
  next
    case (Some f)
    then have "f \<in> set (uniq [] (candidates p s))"
      by (auto simp: find_Some_iff)
    then have "f \<noteq> []" using uniq_nonempty by metis
    then show ?thesis using Some by (simp add: v findResumeFile_def)
  qed
qed

lemma ensure_output_outcomes:
  "(\<exists>e. ensure_output p t = (Thrown e, t))
   \<or> ensure_output p t = (Returned (), t)
   \<or> ensure_output p t = (Returned (), t @ [Mkdir (out_dir p)])"
  by (simp add: ensure_output_cases split: option.splits)

lemma main_try_unfold:
  "main_try p env a =
     then_io (ensure_output p) (\<lambda>_.
     then_io (findResumeFile p (requested a)) (\<lambda>resolvedResume.
       case resolvedResume of
         None \<Rightarrow> process_exit 2
       | Some f \<Rightarrow> if f = [] then process_exit 2 else from_resume p env a f))"
  by (simp add: main_try_def requested_def)

lemma main_try_not_found:
  "ensure_output p t = (Returned (), t1) \<Longrightarrow>
   findResumeFile p (requested a) t1 = (Returned None, t1) \<Longrightarrow>
   main_try p env a t = (Exited 2, t1)"
  by (simp add: main_try_unfold then_io_def process_exit_def)

lemma main_try_exit2:
  "(fst (main_try p env a t) = Exited 2)
   = (\<exists>t1. ensure_output p t = (Returned (), t1)
        \<and> findResumeFile p (requested a) t1 = (Returned None, t1))"
proof
  assume "\<exists>t1. ensure_output p t = (Returned (), t1)
        \<and> findResumeFile p (requested a) t1 = (Returned None, t1)"
  then show "fst (main_try p env a t) = Exited 2"
    using main_try_not_found by fastforce
next
  assume ex: "fst (main_try p env a t) = Exited 2"
  from ensure_output_outcomes [of p t] obtain t1 where t1: "ensure_output p t = (Returned (), t1)"
    using ex by (auto simp: main_try_unfold then_io_Thrown)
  from findResumeFile_cases [of p "requested a" t1]
  have "findResumeFile p (requested a) t1 = (Returned None, t1)"
  proof (elim disjE exE conjE)
    fix e assume "findResumeFile p (requested a) t1 = (Thrown e, t1)"
    then show ?thesis
      using ex t1 by (simp add: main_try_unfold then_io_def)
  next
    fix f assume f: "f \<noteq> []" "findResumeFile p (requested a) t1 = (Returned (Some f), t1)"
    then have "main_try p env a t = from_resume p env a f t1"
      using t1 by (simp add: main_try_unfold then_io_def)
    with finishes_from_resume [of p env a f] ex show ?thesis
      by (auto simp: finishes_def split: outcome.splits dest!: spec [of _ t1])
  qed simp
  with t1 show "\<exists>t1. ensure_output p t = (Returned (), t1)
        \<and> findResumeFile p (requested a) t1 = (Returned None, t1)" by blast
qed

lemma main_try_outcomes:
  "fst (main_try p env a t) = Exited 0 \<or> fst (main_try p env a t) = Exited 2
   \<or> (\<exists>e. fst (main_try p env a t) = Thrown e)"
proof (cases "fst (main_try p env a t)")
  case (Returned x)
  with finishes_main_try [of p env a] show ?thesis
    by (auto simp: finishes_def dest!: spec [of _ t])
next
  case (Thrown e)
  then show ?thesis by simp
next
  case (Exited n)
  with finishes_main_try [of p env a] show ?thesis
    by (auto simp: finishes_def dest!: spec [of _ t])
qed

lemma main_flow_exited:
  "fst (main_try p env a t) = Exited n \<Longrightarrow> main_flow p env a t = main_try p env a t"
  by (cases "main_try p env a t") (simp add: main_flow_def try_catch_def)

lemma main_flow_thrown:
  "main_try p env a t = (Thrown e, t1) \<Longrightarrow> main_flow p env a t = on_error p e t1"
  by (simp add: main_flow_def try_catch_def)

lemma on_error_writes:
  "ensure_output p t1 = (Returned (), t2) \<Longrightarrow>
   writeFileSync p t2 (out_file p ''error.txt'') (err_text e) = None \<Longrightarrow>
   on_error p e t1 = (Exited 10, t2 @ [WriteFile (out_file p ''error.txt'') (err_text e)])"
  by (simp add: on_error_def then_io_def try_catch_def fs_writeFileSync_def process_exit_def)

text \<open>The definitions that a concrete run of the main flow unfolds.\<close>

lemmas run_defs =
  main_flow_def main_try_def from_resume_def extractTextFromDocx_def on_error_def
  then_io_def try_catch_def ensure_output_def findResumeFile_def candidates_def
  fs_existsSync_def fs_mkdirSync_def fs_writeFileSync_def fs_readFileSync_def
  process_exit_def ret_def throw_def lib_def out_dir_def out_file_def err_text_def
  resumePathInput_def js_or_def truthy_u_def

lemma emits_ensure_disk: "emits disk_write (ensure_output p)"
  by (rule emits_ensure_output) (simp add: disk_write_def)

lemma emits_on_error_disk: "emits disk_write (on_error p e)"
  unfolding on_error_def
  by (intro emits_then emits_try_catch emits_ensure_output emits_write)
     (simp_all add: disk_write_def)

lemma findResumeFile_absent:
  assumes "\<forall>f \<in> set (candidates p s). \<not> existsSync p t1 f"
  shows "findResumeFile p (JStr s) t1 = (Returned None, t1)"
proof -
  have "\<forall>f \<in> set (uniq [] (candidates p s)). \<not> existsSync p t1 f"
    using assms uniq_subset by blast
  then have "find (existsSync p t1) (uniq [] (candidates p s)) = None"
    by (simp add: find_None_iff)
  then show ?thesis by (simp add: findResumeFile_def)
qed

lemma then_io_extends:
  assumes "\<And>x. emits P (f x)"
  shows "\<exists>more. snd (then_io m f t) = snd (m t) @ more"
proof (cases "fst (m t)")
  case (Returned x)
  then have "then_io m f t = f x (snd (m t))"
    by (simp add: then_io_Returned [OF pairI])
  with assms [of x] show ?thesis
    unfolding emits_def by metis
next
  case (Thrown e)
  then have "then_io m f t = (Thrown e, snd (m t))"
    by (simp add: then_io_Thrown [OF pairI])
  then show ?thesis by simp
next
  case (Exited n)
  then have "then_io m f t = (Exited n, snd (m t))"
    by (simp add: then_io_Exited [OF pairI])
  then show ?thesis by simp
qed

lemma snd_postJson: "snd (postJson p u b t) = t @ [Post u (JSON_stringify b)]"
  by (simp add: postJson_def split: sum.splits)

lemma callGemini_first_post:
  assumes "fetch_available p"
  shows "\<exists>more. snd (callGemini p env prompt ops t)
           = t @ [Post (url env ops) (JSON_stringify (body1 p env prompt ops))] @ more"
proof -
  have "\<exists>more. snd (callGemini p env prompt ops t)
          = snd (postJson p (url env ops) (body1 p env prompt ops) t) @ more"
    using assms unfolding callGemini_def
    by (simp only: if_False not_True_eq_False not_not)
       (rule then_io_extends [where P = "\<lambda>e. True"],
        intro emits_if emits_then emits_post, simp_all)
  then show ?thesis by (simp add: snd_postJson)
qed

lemma buildFixPrompt_strings:
  "\<exists>prompt. buildFixPrompt (JStr m) (JStr g) = Inr prompt"
  by (simp add: buildFixPrompt_def bindE_def)

lemma main_flow_exits: "\<exists>n. fst (main_flow p env a t) = Exited n"
proof -
  from main_try_outcomes [of p env a t] show ?thesis
  proof (elim disjE exE)
    fix e assume "fst (main_try p env a t) = Thrown e"
    then have "main_flow p env a t = on_error p e (snd (main_try p env a t))"
      using main_flow_thrown [OF pairI] by blast
    then show ?thesis
      by (simp add: on_error_status)
  qed (simp_all add: main_flow_exited)
qed

lemma absent_string:
  assumes "absent p a t1"
  obtains s where "requested a = JStr s" and "\<forall>f \<in> set (candidates p s). \<not> existsSync p t1 f"
  using assms by (cases "requested a") (auto simp: absent_def list_all_iff)

lemma main_flow_absent:
  assumes "absent p a (snd (ensure_output p t))"
  shows "fst (ensure_output p t) = Returned () \<Longrightarrow>
           main_flow p env a t = (Exited 2, snd (ensure_output p t))"
    and "fst (ensure_output p t) \<noteq> Returned () \<Longrightarrow> fst (main_flow p env a t) = Exited 10"
    and "\<exists>new. snd (main_flow p env a t) = t @ new \<and> list_all disk_write new"
proof -
  from assms obtain s where s: "requested a = JStr s"
    and none: "\<forall>f \<in> set (candidates p s). \<not> existsSync p (snd (ensure_output p t)) f"
    by (rule absent_string)
  from emits_ensure_disk [of p] obtain new where
    new: "snd (ensure_output p t) = t @ new" "list_all disk_write new"
    unfolding emits_def by blast
  have found: "findResumeFile p (requested a) (t @ new) = (Returned None, t @ new)"
    using s none new findResumeFile_absent by simp
  have ret: "main_flow p env a t = (Exited 2, t @ new)" if "fst (ensure_output p t) = Returned ()"
  proof -
    from that new have "ensure_output p t = (Returned (), t @ new)"
      by (simp add: pairI)
    with found have "main_try p env a t = (Exited 2, t @ new)"
      by (rule main_try_not_found [rotated])
    then show ?thesis
      using main_flow_exited [of p env a t 2] by simp
  qed
  have thr: "\<exists>e. main_flow p env a t = on_error p e (t @ new)"
    if "fst (ensure_output p t) \<noteq> Returned ()"
  proof (cases "fst (ensure_output p t)")
    case (Returned u)
    with that show ?thesis by simp
  next
    case (Thrown e)
    then have "ensure_output p t = (Thrown e, t @ new)"
      using new by (simp add: pairI)
    then have "main_try p env a t = (Thrown e, t @ new)"
      by (simp add: main_try_unfold then_io_Thrown)
    then have "main_flow p env a t = on_error p e (t @ new)"
      by (rule main_flow_thrown)
    then show ?thesis by blast
  next
    case (Exited n)
    then show ?thesis
      using no_exit_ensure_output [of p] by (simp add: no_exit_def)
  qed
  show "fst (ensure_output p t) = Returned () \<Longrightarrow>
           main_flow p env a t = (Exited 2, snd (ensure_output p t))"
    using ret new by simp
  show "fst (ensure_output p t) \<noteq> Returned () \<Longrightarrow> fst (main_flow p env a t) = Exited 10"
    using thr on_error_status by fastforce
  show "\<exists>new. snd (main_flow p env a t) = t @ new \<and> list_all disk_write new"
  proof (cases "fst (ensure_output p t) = Returned ()")
    case True
    with ret new show ?thesis by auto
  next
    case False
    with thr obtain e where m: "main_flow p env a t = on_error p e (t @ new)" by blast
    from emits_on_error_disk [of p e] obtain new' where
      "snd (on_error p e (t @ new)) = (t @ new) @ new'" "list_all disk_write new'"
      unfolding emits_def by blast
    with m new show ?thesis
      by (auto intro!: exI [of _ "new @ new'"])
  qed
qed

text \<open>What line 489 extracts.\<close>

lemma dropWhile_first:
  "c \<notin> set pre \<Longrightarrow> dropWhile (\<lambda>x. x \<noteq> c) (pre @ c # rest) = c # rest"
  by (induction pre) auto

lemma match_braces_found:
  assumes "CHR ''{'' \<notin> set pre" and "CHR ''}'' \<notin> set post"
  shows "match_braces (pre @ [CHR ''{''] @ mid @ [CHR ''}''] @ post)
         = Some ([CHR ''{''] @ mid @ [CHR ''}''])"
proof -
  let ?rest = "CHR ''{'' # mid @ CHR ''}'' # post"
  have d: "dropWhile (\<lambda>c. c \<noteq> CHR ''{'') (pre @ [CHR ''{''] @ mid @ [CHR ''}''] @ post) = ?rest"
    using dropWhile_first [OF assms(1)] by simp
  have r: "rev ?rest = rev post @ CHR ''}'' # (rev mid @ [CHR ''{''])"
    by simp
  have "CHR ''}'' \<notin> set (rev post)" using assms(2) by simp
  then have "dropWhile (\<lambda>c. c \<noteq> CHR ''}'') (rev ?rest) = CHR ''}'' # (rev mid @ [CHR ''{''])"
    unfolding r by (rule dropWhile_first)
  then show ?thesis
    unfolding match_braces_def d by simp
qed

lemma match_braces_shape:
  assumes "match_braces s = Some m"
  shows "\<exists>pre mid post. s = pre @ [CHR ''{''] @ mid @ [CHR ''}''] @ post
           \<and> m = [CHR ''{''] @ mid @ [CHR ''}'']
           \<and> CHR ''{'' \<notin> set pre \<and> CHR ''}'' \<notin> set post"
proof -
  let ?pre = "takeWhile (\<lambda>c. c \<noteq> CHR ''{'') s"
  let ?rest = "dropWhile (\<lambda>c. c \<noteq> CHR ''{'') s"
  from assms have in_rest: "CHR ''}'' \<in> set (drop 1 ?rest)"
    and m: "m = rev (dropWhile (\<lambda>c. c \<noteq> CHR ''}'') (rev ?rest))"
    by (auto simp: match_braces_def split: if_splits)
  have "?rest \<noteq> []"
  proof
    assume "?rest = []"
    with in_rest show False by simp
  qed
  then obtain c r where cr: "?rest = c # r"
    by (cases "?rest") auto
  from hd_dropWhile [OF \<open>?rest \<noteq> []\<close>] cr have "c = CHR ''{''"
    by simp
  with cr have rest: "?rest = CHR ''{'' # r"
    by simp
  with in_rest have "CHR ''}'' \<in> set r" by simp
  then obtain mid post where r: "r = mid @ CHR ''}'' # post" and post: "CHR ''}'' \<notin> set post"
    by (meson split_list_last)
  have s: "s = ?pre @ [CHR ''{''] @ mid @ [CHR ''}''] @ post"
    using takeWhile_dropWhile_id [of "\<lambda>c. c \<noteq> CHR ''{''" s] rest r by simp
  have pre: "CHR ''{'' \<notin> set ?pre"
    by (auto dest: set_takeWhileD)
  from match_braces_found [OF pre post, of mid] s assms
  have "m = [CHR ''{''] @ mid @ [CHR ''}'']" by simp
  with s pre post show ?thesis by blast
qed

section \<open>The generation client: attempts and the error of two failures\<close>

text \<open>
  For every call of \<^verbatim>\<open>callGemini\<close>, from any state of the environment: the requests made
  are none (no global \<^verbatim>\<open>fetch\<close>), the primary one, or the primary one followed by the
  contents-only one, so at most two. The error built by \<^verbatim>\<open>callGemini\<close> for two failures
  is thrown if and only if both requests were answered and both answers carry a failure
  status. Its message is the one of line 342 or of line 352, and it contains the
  serialised body of each answer whose body is JSON and truthy.
\<close>

lemma callGemini_requests:
  "let u = url env ops;
       b1 = JSON_stringify (body1 p env prompt ops);
       b2 = JSON_stringify (body2 prompt);
       r = callGemini p env prompt ops t
   in (snd r = t \<or> snd r = t @ [Post u b1] \<or> snd r = t @ [Post u b1, Post u b2])
    \<and> ((\<exists>m. fst r = Thrown (GenerationError m))
        = (fetch_available p
           \<and> (\<exists>r1 r2. fetch p t u b1 = Inr r1 \<and> \<not> r_ok r1
                 \<and> fetch p (t @ [Post u b1]) u b2 = Inr r2 \<and> \<not> r_ok r2)))
    \<and> (\<forall>m r1 r2. fst r = Thrown (GenerationError m)
           \<and> fetch p t u b1 = Inr r1 \<and> fetch p (t @ [Post u b1]) u b2 = Inr r2
         \<longrightarrow> m = failure_message (attempt_of r1) (attempt_of r2)
           \<and> (\<forall>j. r_json r1 = Some j \<and> truthy j \<longrightarrow> sublist (JSON_stringify j) m)
           \<and> (\<forall>j. r_json r2 = Some j \<and> truthy j \<longrightarrow> sublist (JSON_stringify j) m))"
proof -
  define u where "u = url env ops"
  define b1 where "b1 = JSON_stringify (body1 p env prompt ops)"
  define b2 where "b2 = JSON_stringify (body2 prompt)"
  define r where "r = callGemini p env prompt ops t"
  note defs = u_def b1_def b2_def r_def
  have goal: "(snd r = t \<or> snd r = t @ [Post u b1] \<or> snd r = t @ [Post u b1, Post u b2])
    \<and> ((\<exists>m. fst r = Thrown (GenerationError m))
        = (fetch_available p
           \<and> (\<exists>r1 r2. fetch p t u b1 = Inr r1 \<and> \<not> r_ok r1
                 \<and> fetch p (t @ [Post u b1]) u b2 = Inr r2 \<and> \<not> r_ok r2)))
    \<and> (\<forall>m r1 r2. fst r = Thrown (GenerationError m)
           \<and> fetch p t u b1 = Inr r1 \<and> fetch p (t @ [Post u b1]) u b2 = Inr r2
         \<longrightarrow> m = failure_message (attempt_of r1) (attempt_of r2)
           \<and> (\<forall>j. r_json r1 = Some j \<and> truthy j \<longrightarrow> sublist (JSON_stringify j) m)
           \<and> (\<forall>j. r_json r2 = Some j \<and> truthy j \<longrightarrow> sublist (JSON_stringify j) m))"
  proof (cases "fetch_available p")
    case False
    then have "r = (Thrown FetchUnavailable, t)"
      by (simp add: r_def callGemini_no_fetch)
    with False show ?thesis by simp
  next
    case avail: True
    show ?thesis
    proof (cases "fetch p t u b1")
      case (Inl e)
      then have "r = (Thrown (LibError e), t @ [Post u b1])"
        using avail by (simp add: defs callGemini_reject1)
      with Inl show ?thesis by simp
    next
      case r1: (Inr r1)
      show ?thesis
      proof (cases "r_ok r1")
        case True
        then have "r = lift (extractTextFromResponseJson (a_json (attempt_of r1))) (t @ [Post u b1])"
          using avail r1 by (simp add: defs callGemini_ok1)
        then have "snd r = t @ [Post u b1]" and "\<And>m. fst r \<noteq> Thrown (GenerationError m)"
          by (simp_all add: fst_lift_not_generation type_errs_extract)
        with r1 True show ?thesis by simp
      next
        case no1: False
        show ?thesis
        proof (cases "fetch p (t @ [Post u b1]) u b2")
          case (Inl e)
          then have "r = (Thrown (LibError e), t @ [Post u b1, Post u b2])"
            using avail r1 no1 by (simp add: defs callGemini_reject2)
          with Inl show ?thesis by simp
        next
          case r2: (Inr r2)
          show ?thesis
          proof (cases "r_ok r2")
            case True
            then have "r = lift (extractTextFromResponseJson (a_json (attempt_of r2)))
                (t @ [Post u b1, Post u b2])"
              using avail r1 no1 r2 by (simp add: defs callGemini_ok2)
            then have "snd r = t @ [Post u b1, Post u b2]"
              and "\<And>m. fst r \<noteq> Thrown (GenerationError m)"
              by (simp_all add: fst_lift_not_generation type_errs_extract)
            with r1 r2 True show ?thesis by simp
          next
            case no2: False
            then have "r = (Thrown (GenerationError (failure_message (attempt_of r1) (attempt_of r2))),
                t @ [Post u b1, Post u b2])"
              using avail r1 no1 r2 by (simp add: defs callGemini_fail2)
            with avail r1 r2 no1 no2 show ?thesis
              by (simp add: failure_message_json1 failure_message_json2)
          qed
        qed
      qed
    qed
  qed
  then show ?thesis
    unfolding Let_def defs .
qed

text \<open>
  C1. The claim is that at most two requests are made, that the error is raised if and
  only if both attempts fail, and that its message contains both failure bodies. The
  first two parts hold, as shown above. The message is built to carry the bodies and
  loses them in two cases. When the body of an answer is not JSON, \<^verbatim>\<open>res.json()\<close> rejects
  after it has read the body, \<^verbatim>\<open>res.text()\<close> then rejects as well, \<^verbatim>\<open>text\<close> stays \<^verbatim>\<open>null\<close>
  and the message says \<^verbatim>\<open>null\<close>. When the body of an answer is JSON and falsy, the test
  \<^verbatim>\<open>attempt.json ? ... : attempt.text\<close> takes the text, which is \<^verbatim>\<open>null\<close>. In the two runs
  below both requests are made and answered with a failure status (502 with a body that
  is not JSON, then 500 with the JSON body \<^verbatim>\<open>false\<close>), the error is thrown, and its
  message holds no body at all.
\<close>

theorem callGemini_failure_bodies_lost:
  "callGemini (answering gateway_body gateway_body) plain_environ ''hi'' opts_tailor []
     = (Thrown (GenerationError ''Gemini API error. Attempt1: null. Attempt2: null''),
        [Post (url plain_environ opts_tailor)
           (JSON_stringify (body1 plain_platform plain_environ ''hi'' opts_tailor)),
         Post (url plain_environ opts_tailor) (JSON_stringify (body2 ''hi''))])
   \<and> r_json false_body = Some (JBool False)
   \<and> JSON_stringify (JBool False) = ''false''
   \<and> callGemini false_body_platform plain_environ ''hi'' opts_tailor []
     = (Thrown (GenerationError ''Gemini API error. Attempt1: null. Attempt2: null''),
        [Post (url plain_environ opts_tailor)
           (JSON_stringify (body1 plain_platform plain_environ ''hi'' opts_tailor)),
         Post (url plain_environ opts_tailor) (JSON_stringify (body2 ''hi''))])
   \<and> \<not> sublist ''false'' ''Gemini API error. Attempt1: null. Attempt2: null''"
proof -
  have "callGemini (answering gateway_body gateway_body) plain_environ ''hi'' opts_tailor []
     = (Thrown (GenerationError ''Gemini API error. Attempt1: null. Attempt2: null''),
        [Post (url plain_environ opts_tailor)
           (JSON_stringify (body1 plain_platform plain_environ ''hi'' opts_tailor)),
         Post (url plain_environ opts_tailor) (JSON_stringify (body2 ''hi''))])"
    by (simp add: callGemini_def then_io_def postJson_def attempt_of_def throw_def msg_of_def
        body1_def candidateConfig_def MAX_OUTPUT_TOKENS_def answering_def plain_platform_def
        gateway_body_def)
  moreover have "callGemini false_body_platform plain_environ ''hi'' opts_tailor []
     = (Thrown (GenerationError ''Gemini API error. Attempt1: null. Attempt2: null''),
        [Post (url plain_environ opts_tailor)
           (JSON_stringify (body1 plain_platform plain_environ ''hi'' opts_tailor)),
         Post (url plain_environ opts_tailor) (JSON_stringify (body2 ''hi''))])"
    by (simp add: callGemini_def then_io_def postJson_def attempt_of_def throw_def msg_of_def
        body1_def candidateConfig_def MAX_OUTPUT_TOKENS_def false_body_platform_def
        plain_platform_def false_body_def)
  moreover have "r_json false_body = Some (JBool False)"
    by (simp add: false_body_def)
  moreover have "\<not> sublist ''false'' ''Gemini API error. Attempt1: null. Attempt2: null''"
    by code_simp
  ultimately show ?thesis by simp
qed

section \<open>The shapes of a response\<close>

text \<open>
  C2, as amended. For every JSON value \<open>j\<close>: when \<open>j\<close> is falsy (\<^verbatim>\<open>null\<close>, \<^verbatim>\<open>false\<close>,
  \<^verbatim>\<open>0\<close>, the empty string), \<^verbatim>\<open>extractTextFromResponseJson\<close> returns the empty string. When
  \<open>j\<close> is truthy and sound, it throws nothing and returns what the specification
  describes: the text of the first of the documented shapes that matches, in the
  documented order, and the whole response serialised when none matches. Sound means that
  the list which that first shape maps over holds no \<^verbatim>\<open>null\<close>, and no text that
  \<^verbatim>\<open>ToString\<close> does not convert; what stands elsewhere in the response does not matter. On
  a truthy response that is not sound a \<^verbatim>\<open>TypeError\<close> is thrown.
\<close>

theorem extract_shapes:
  "(\<not> truthy j \<longrightarrow> extractTextFromResponseJson j = Inr [])
   \<and> (truthy j \<and> sound j \<longrightarrow> extractTextFromResponseJson j = Inr (spec_extract j))
   \<and> (truthy j \<and> \<not> sound j \<longrightarrow> (\<exists>m. extractTextFromResponseJson j = Inl (TypeError m)))"
proof (intro conjI impI)
  assume "\<not> truthy j"
  then show "extractTextFromResponseJson j = Inr []"
    by (simp add: extractTextFromResponseJson_def)
next
  assume "truthy j \<and> sound j"
  then show "extractTextFromResponseJson j = Inr (spec_extract j)"
    by (auto simp: extract_run sound_def spec_extract_def run_sel_sound split: option.splits)
next
  assume "truthy j \<and> \<not> sound j"
  then show "\<exists>m. extractTextFromResponseJson j = Inl (TypeError m)"
    by (auto simp: extract_run sound_def run_sel_unsound split: option.splits)
qed

text \<open>
  Witness: \<^verbatim>\<open>null\<close>; a response whose first candidate has two parts; a response with a
  direct text and a \<^verbatim>\<open>null\<close> in a list that no shape reads; and a response whose list of
  parts holds \<^verbatim>\<open>null\<close>.
\<close>

theorem extract_shapes_witness:
  "\<not> truthy JNull \<and> extractTextFromResponseJson JNull = Inr []
   \<and> truthy two_parts \<and> sound two_parts
   \<and> spec_extract two_parts = ''Hello\<newline>world''
   \<and> extractTextFromResponseJson two_parts = Inr ''Hello\<newline>world''
   \<and> truthy stray_null \<and> sound stray_null
   \<and> extractTextFromResponseJson stray_null = Inr ''x''
   \<and> truthy null_part \<and> \<not> sound null_part
   \<and> (\<exists>m. extractTextFromResponseJson null_part = Inl (TypeError m))"
proof -
  have a: "truthy two_parts" "sound two_parts"
    by (simp_all add: two_parts_def sound_def shapes_def first_candidate_def field_def
        part_val_def item_val_def)
  have b: "spec_extract two_parts = ''Hello\<newline>world''"
    by (simp add: two_parts_def spec_extract_def shapes_def first_candidate_def field_def
        part_val_def item_val_def)
  have c: "truthy stray_null" "sound stray_null" "spec_extract stray_null = ''x''"
    by (simp_all add: stray_null_def sound_def spec_extract_def shapes_def field_def)
  have d: "truthy null_part" "\<not> sound null_part"
    by (simp_all add: null_part_def sound_def shapes_def first_candidate_def field_def)
  from extract_shapes [of JNull] extract_shapes [of two_parts] extract_shapes [of stray_null]
    extract_shapes [of null_part] a b c d
  show ?thesis by simp
qed

text \<open>
  The claim as stated fails at \<^verbatim>\<open>null\<close>: no shape matches, the serialisation is the text
  \<^verbatim>\<open>null\<close>, and line 357 returns the empty string. It also fails where a list of parts
  holds \<^verbatim>\<open>null\<close>, since the arrow function reads \<^verbatim>\<open>p.text\<close>, and where the text of a part
  is an object with a property \<^verbatim>\<open>toString\<close>, since \<^verbatim>\<open>join\<close> converts it to a string: in
  both a \<^verbatim>\<open>TypeError\<close> is thrown.
\<close>

theorem extract_counterexample:
  "extractTextFromResponseJson JNull = Inr []
   \<and> spec_extract JNull = ''null''
   \<and> extractTextFromResponseJson null_part = Inl (cannot_read ''null'' ''text'')
   \<and> extractTextFromResponseJson unprintable_part
       = Inl (TypeError ''Cannot convert object to primitive value'')"
  by (simp add: extractTextFromResponseJson_def spec_extract_def shapes_def
      first_candidate_def field_def null_part_def unprintable_part_def get_prop_def bindE_def
      truthy_u_def first_elem_def candidate_text_def map_join_def part_text_def
      text_or_json_def join_def)

section \<open>The exit status\<close>

text \<open>
  C3, as amended. The main flow always ends the process, with status 0, 2 or 10. The
  status is 2 exactly when the output directory was there (or was made) and
  \<^verbatim>\<open>findResumeFile\<close> returned \<^verbatim>\<open>null\<close>. It is 10 exactly when a step of the \<^verbatim>\<open>try\<close> block
  threw; it is 0 in every other run, that is when the \<^verbatim>\<open>try\<close> block reached its last
  statement. With status 10 the text of the error is written to \<^verbatim>\<open>error.txt\<close> in the
  output directory provided that the directory is there or can be made and that the
  write succeeds; where they fail, the handler swallows the failure and nothing is
  written.
\<close>

theorem main_flow_status:
  "(exit_status (main_flow p env a t) = Some 0 \<or> exit_status (main_flow p env a t) = Some 2
      \<or> exit_status (main_flow p env a t) = Some 10)
   \<and> ((exit_status (main_flow p env a t) = Some 2)
        = (\<exists>t1. ensure_output p t = (Returned (), t1)
             \<and> findResumeFile p (requested a) t1 = (Returned None, t1)))
   \<and> ((exit_status (main_flow p env a t) = Some 10) = (\<exists>e. fst (main_try p env a t) = Thrown e))
   \<and> (\<forall>e t1 t2. main_try p env a t = (Thrown e, t1)
          \<and> ensure_output p t1 = (Returned (), t2)
          \<and> writeFileSync p t2 (out_file p ''error.txt'') (err_text e) = None
        \<longrightarrow> main_flow p env a t
            = (Exited 10, t2 @ [WriteFile (out_file p ''error.txt'') (err_text e)]))"
proof -
  have written: "\<forall>e t1 t2. main_try p env a t = (Thrown e, t1)
          \<and> ensure_output p t1 = (Returned (), t2)
          \<and> writeFileSync p t2 (out_file p ''error.txt'') (err_text e) = None
        \<longrightarrow> main_flow p env a t
            = (Exited 10, t2 @ [WriteFile (out_file p ''error.txt'') (err_text e)])"
    by (simp add: main_flow_thrown on_error_writes)
  from main_try_outcomes [of p env a t] show ?thesis
  proof (elim disjE exE)
    assume x: "fst (main_try p env a t) = Exited 0"
    then have "exit_status (main_flow p env a t) = Some 0"
      by (simp add: main_flow_exited exit_status_def)
    with x written main_try_exit2 [of p env a t] show ?thesis by simp
  next
    assume x: "fst (main_try p env a t) = Exited 2"
    then have "exit_status (main_flow p env a t) = Some 2"
      by (simp add: main_flow_exited exit_status_def)
    with x written main_try_exit2 [of p env a t] show ?thesis by simp
  next
    fix e assume x: "fst (main_try p env a t) = Thrown e"
    then have "main_flow p env a t = on_error p e (snd (main_try p env a t))"
      using main_flow_thrown [OF pairI] by blast
    then have "exit_status (main_flow p env a t) = Some 10"
      by (simp add: exit_status_def on_error_status)
    with x written main_try_exit2 [of p env a t] show ?thesis by simp
  qed
qed

text \<open>
  Witness: the resume exists and cannot be read; the error is written to the error file
  and the status is 10.
\<close>

theorem main_flow_status_witness:
  "main_try denied_platform plain_environ plain_argv []
     = (Thrown (LibError ''Error: EACCES: permission denied''),
        [ReadFile ''/work/resumes/Keshav-resume.docx''])
   \<and> ensure_output denied_platform [ReadFile ''/work/resumes/Keshav-resume.docx'']
     = (Returned (), [ReadFile ''/work/resumes/Keshav-resume.docx''])
   \<and> writeFileSync denied_platform [ReadFile ''/work/resumes/Keshav-resume.docx'']
        (out_file denied_platform ''error.txt'')
        (err_text (LibError ''Error: EACCES: permission denied'')) = None
   \<and> main_flow denied_platform plain_environ plain_argv []
     = (Exited 10,
        [ReadFile ''/work/resumes/Keshav-resume.docx'',
         WriteFile ''/work/output/error.txt'' ''Error: EACCES: permission denied''])
   \<and> exit_status (main_flow denied_platform plain_environ plain_argv []) = Some 10"
proof -
  have a: "main_try denied_platform plain_environ plain_argv []
     = (Thrown (LibError ''Error: EACCES: permission denied''),
        [ReadFile ''/work/resumes/Keshav-resume.docx''])"
    by (simp add: run_defs denied_platform_def happy_platform_def plain_platform_def
        plain_argv_def)
  have b: "ensure_output denied_platform [ReadFile ''/work/resumes/Keshav-resume.docx'']
     = (Returned (), [ReadFile ''/work/resumes/Keshav-resume.docx''])"
    by (simp add: run_defs denied_platform_def happy_platform_def plain_platform_def)
  have c: "writeFileSync denied_platform [ReadFile ''/work/resumes/Keshav-resume.docx'']
        (out_file denied_platform ''error.txt'')
        (err_text (LibError ''Error: EACCES: permission denied'')) = None"
    by (simp add: denied_platform_def happy_platform_def plain_platform_def)
  have d: "out_file denied_platform ''error.txt'' = ''/work/output/error.txt''"
    "err_text (LibError ''Error: EACCES: permission denied'') = ''Error: EACCES: permission denied''"
    by (simp_all add: run_defs denied_platform_def happy_platform_def plain_platform_def)
  from main_flow_status [of denied_platform plain_environ plain_argv "[]"] a b c
  have "main_flow denied_platform plain_environ plain_argv []
     = (Exited 10, [ReadFile ''/work/resumes/Keshav-resume.docx'']
        @ [WriteFile (out_file denied_platform ''error.txt'')
             (err_text (LibError ''Error: EACCES: permission denied''))])"
    by blast
  then show ?thesis
    using a b c by (simp add: d exit_status_def)
qed

text \<open>
  The claim as stated fails: when the resume cannot be read and the disk cannot be
  written either, the status is 10 and no error file is written; the only event of the
  run is the attempt to read the resume.
\<close>

theorem main_flow_error_file_counterexample:
  "main_try broken_disk_platform plain_environ plain_argv []
     = (Thrown (LibError ''Error: EACCES: permission denied''),
        [ReadFile ''/work/resumes/Keshav-resume.docx''])
   \<and> main_flow broken_disk_platform plain_environ plain_argv []
     = (Exited 10, [ReadFile ''/work/resumes/Keshav-resume.docx''])"
  by (simp add: run_defs broken_disk_platform_def happy_platform_def plain_platform_def
      plain_argv_def)

section \<open>The browser and its closing\<close>

text \<open>
  C4, as amended. \<^verbatim>\<open>saveMarkdownAsPdf\<close> ends in one of two ways. Either it returns, and
  then its last five events are the launch of the browser, the new page, the content,
  the export to the given path and the closing of the browser. Or a step throws, the
  error goes to the caller, and the browser is not closed by \<^verbatim>\<open>saveMarkdownAsPdf\<close>:
  there is no \<^verbatim>\<open>finally\<close>, and \<^verbatim>\<open>browser.close()\<close> is the last statement of the success
  path only.
\<close>

theorem saveMarkdownAsPdf_close:
  "(fst (saveMarkdownAsPdf p md out title t) = Returned ()
      \<and> (\<exists>pre html. snd (saveMarkdownAsPdf p md out title t)
             = t @ pre @ [Launch, NewPage, SetContent html, Pdf out, Close]
           \<and> list_all file_event pre))
   \<or> ((\<exists>e. fst (saveMarkdownAsPdf p md out title t) = Thrown e)
      \<and> (\<exists>new. snd (saveMarkdownAsPdf p md out title t) = t @ new \<and> Close \<notin> set new))"
proof -
  from emits_write_rendered_html [of p md title] obtain pre where
    pre: "snd (write_rendered_html p md title t) = t @ pre" "list_all file_event pre"
    unfolding emits_def by blast
  then have nc: "Close \<notin> set pre"
    by (auto simp: list_all_iff file_event_def)
  show ?thesis
  proof (cases "fst (write_rendered_html p md title t)")
    case (Exited n)
    then show ?thesis
      using no_exit_write_rendered_html [of p md title] by (simp add: no_exit_def)
  next
    case (Thrown e)
    then have "saveMarkdownAsPdf p md out title t = (Thrown e, t @ pre)"
      using pre by (simp add: saveMarkdownAsPdf_def then_io_Thrown [OF pairI])
    then show ?thesis using nc by auto
  next
    case (Returned filled)
    then have eq: "saveMarkdownAsPdf p md out title t = print_pdf p filled out (t @ pre)"
      using pre by (simp add: saveMarkdownAsPdf_def then_io_Returned [OF pairI])
    from print_pdf_cases [of p filled out "t @ pre"] show ?thesis
    proof
      assume "print_pdf p filled out (t @ pre)
        = (Returned (), (t @ pre) @ [Launch, NewPage, SetContent filled, Pdf out, Close])"
      then show ?thesis using eq pre by auto
    next
      assume "\<exists>e new. print_pdf p filled out (t @ pre) = (Thrown e, (t @ pre) @ new)
         \<and> new \<in> {[], [Launch], [Launch, NewPage], [Launch, NewPage, SetContent filled],
                    [Launch, NewPage, SetContent filled, Pdf out]}"
      then obtain e new where
        "print_pdf p filled out (t @ pre) = (Thrown e, (t @ pre) @ new)" "Close \<notin> set new"
        by auto
      then have "fst (saveMarkdownAsPdf p md out title t) = Thrown e"
        and "snd (saveMarkdownAsPdf p md out title t) = t @ (pre @ new)"
        and "Close \<notin> set (pre @ new)"
        using eq nc by auto
      then show ?thesis by blast
    qed
  qed
qed

text \<open>Witness: a run in which every call succeeds; the browser is launched and closed.\<close>

theorem saveMarkdownAsPdf_close_witness:
  "saveMarkdownAsPdf plain_platform ''Hi'' ''/work/output/x.pdf'' ''T'' []
     = (Returned (),
        [Mkdir ''/work/output'',
         WriteFile ''/work/output/tailored_resume_rendered.html''
           (replace_first (replace_first default_template ''{{CONTENT}}'' ''Hi'') ''{{TITLE}}'' ''T''),
         Launch, NewPage,
         SetContent (replace_first (replace_first default_template ''{{CONTENT}}'' ''Hi'')
                       ''{{TITLE}}'' ''T''),
         Pdf ''/work/output/x.pdf'', Close])"
  using saveMarkdownAsPdf_close [of plain_platform "''Hi''" "''/work/output/x.pdf''" "''T''" "[]"]
  by (simp add: saveMarkdownAsPdf_def write_rendered_html_def print_pdf_def then_io_def
      fs_existsSync_def fs_mkdirSync_def fs_writeFileSync_def lib_def ret_def browser_call_def
      ensure_output_def out_dir_def out_file_def templatePath_def plain_platform_def
      del: replace_first.simps)

text \<open>
  The claim as stated fails: when \<^verbatim>\<open>page.pdf\<close> throws, the browser has been launched, the
  page has its content, and the run of \<^verbatim>\<open>saveMarkdownAsPdf\<close> ends without the closing.
\<close>

theorem saveMarkdownAsPdf_leak:
  "saveMarkdownAsPdf pdf_fails_platform ''Hi'' ''/work/output/x.pdf'' ''T'' []
     = (Thrown (LibError ''Error: Protocol error (Page.printToPDF)''),
        [Mkdir ''/work/output'',
         WriteFile ''/work/output/tailored_resume_rendered.html''
           (replace_first (replace_first default_template ''{{CONTENT}}'' ''Hi'') ''{{TITLE}}'' ''T''),
         Launch, NewPage,
         SetContent (replace_first (replace_first default_template ''{{CONTENT}}'' ''Hi'')
                       ''{{TITLE}}'' ''T'')])"
  by (simp add: saveMarkdownAsPdf_def write_rendered_html_def print_pdf_def then_io_def
      fs_existsSync_def fs_mkdirSync_def fs_writeFileSync_def lib_def ret_def browser_call_def
      ensure_output_def out_dir_def out_file_def templatePath_def
      pdf_fails_platform_def plain_platform_def
      del: replace_first.simps)

section \<open>The gaps of the review\<close>

text \<open>
  C5. Whatever the answer of the review call is, lines 487 to 495 throw nothing. The text
  that line 489 extracts is the part of the answer from its first opening brace to its
  last closing brace: there is one exactly when a closing brace stands after the first
  opening brace. The value kept is that text when there is one and \<^verbatim>\<open>JSON.parse\<close> accepts
  it, and the raw answer in every other case. The run then goes on in every case: that
  value is written to the gaps file, and, once it is written, the fix prompt is built from
  it and the request of the revision stage is sent.
\<close>

theorem gaps_never_abort:
  "(\<forall>m. (match_braces raw = Some m)
        = (\<exists>pre mid post. raw = pre @ [CHR ''{''] @ mid @ [CHR ''}''] @ post
             \<and> m = [CHR ''{''] @ mid @ [CHR ''}'']
             \<and> CHR ''{'' \<notin> set pre \<and> CHR ''}'' \<notin> set post))
   \<and> gaps_of p raw
     = (case match_braces raw of
          Some m \<Rightarrow> if JSON_parse_ok p m then m else raw
        | None \<Rightarrow> raw)
   \<and> (writeFileSync p t (out_file p ''recruiter_gaps.json.txt'') (gaps_of p raw) = None
        \<and> fetch_available p
      \<longrightarrow> (\<exists>prompt rest.
             buildFixPrompt (JStr tailored) (JStr (gaps_of p raw)) = Inr prompt
           \<and> snd (after_review p env a tailored raw t)
             = t @ [WriteFile (out_file p ''recruiter_gaps.json.txt'') (gaps_of p raw),
                    Post (url env opts_fix) (JSON_stringify (body1 p env prompt opts_fix))]
                 @ rest))"
proof (intro conjI impI allI)
  fix m
  show "(match_braces raw = Some m)
        = (\<exists>pre mid post. raw = pre @ [CHR ''{''] @ mid @ [CHR ''}''] @ post
             \<and> m = [CHR ''{''] @ mid @ [CHR ''}'']
             \<and> CHR ''{'' \<notin> set pre \<and> CHR ''}'' \<notin> set post)"
    using match_braces_shape [of raw m] match_braces_found by blast
next
  show "gaps_of p raw
     = (case match_braces raw of
          Some m \<Rightarrow> if JSON_parse_ok p m then m else raw
        | None \<Rightarrow> raw)"
    by (simp add: gaps_of_def split: option.splits)
next
  assume h: "writeFileSync p t (out_file p ''recruiter_gaps.json.txt'') (gaps_of p raw) = None
        \<and> fetch_available p"
  let ?w = "WriteFile (out_file p ''recruiter_gaps.json.txt'') (gaps_of p raw)"
  obtain prompt where prompt: "buildFixPrompt (JStr tailored) (JStr (gaps_of p raw)) = Inr prompt"
    using buildFixPrompt_strings by blast
  define k where "k = (\<lambda>fixedResume.
     then_io (fs_writeFileSync p (out_file p ''tailored_resume_final.md'') fixedResume) (\<lambda>_.
     then_io (lift (bindE (ToString (jobTitle a)) (\<lambda>t. Inr (t @ '' - Tailored Resume''))))
       (\<lambda>title.
     then_io (saveMarkdownAsPdf p fixedResume (out_file p ''tailored_resume_final.pdf'') title)
       (\<lambda>_. process_exit 0 :: unit io))))"
  have ek: "\<And>x. emits (\<lambda>e. True) (k x)"
    unfolding k_def
    by (intro emits_then emits_write emits_saveMarkdownAsPdf) simp_all
  have "after_review p env a tailored raw t
      = then_io (callGemini p env prompt opts_fix) k (t @ [?w])"
    using h prompt
    by (simp add: after_review_def k_def then_io_def fs_writeFileSync_def lift_def ret_def)
  moreover obtain more where
    "snd (then_io (callGemini p env prompt opts_fix) k (t @ [?w]))
      = snd (callGemini p env prompt opts_fix (t @ [?w])) @ more"
    using then_io_extends [of "\<lambda>e. True" k, OF ek] by blast
  moreover obtain more' where
    "snd (callGemini p env prompt opts_fix (t @ [?w]))
      = (t @ [?w]) @ [Post (url env opts_fix) (JSON_stringify (body1 p env prompt opts_fix))]
          @ more'"
    using callGemini_first_post h by blast
  ultimately have "snd (after_review p env a tailored raw t)
      = t @ [?w, Post (url env opts_fix) (JSON_stringify (body1 p env prompt opts_fix))]
          @ (more' @ more)"
    by simp
  with prompt show "\<exists>prompt rest.
             buildFixPrompt (JStr tailored) (JStr (gaps_of p raw)) = Inr prompt
           \<and> snd (after_review p env a tailored raw t)
             = t @ [WriteFile (out_file p ''recruiter_gaps.json.txt'') (gaps_of p raw),
                    Post (url env opts_fix) (JSON_stringify (body1 p env prompt opts_fix))]
                 @ rest"
    by blast
qed

text \<open>
  Witness: an answer that holds a JSON object; an answer that holds two objects, of which
  the text from the first opening brace to the last closing brace is taken; and an answer
  whose braces hold no JSON, after which the raw answer is written and the revision
  request is sent.
\<close>

theorem gaps_never_abort_witness:
  \<open>match_braces review_with_json = Some ''{"gaps":[]}''
   \<and> JSON_parse_ok json_platform ''{"gaps":[]}''
   \<and> gaps_of json_platform review_with_json = ''{"gaps":[]}''
   \<and> match_braces review_two_objects = Some ''{"a":1} then {"b":2}''
   \<and> gaps_of json_platform review_two_objects = review_two_objects
   \<and> match_braces review_without_json = Some ''{missing: cloud, (see above}''
   \<and> \<not> JSON_parse_ok json_platform ''{missing: cloud, (see above}''
   \<and> gaps_of json_platform review_without_json = review_without_json
   \<and> writeFileSync json_platform [] (out_file json_platform ''recruiter_gaps.json.txt'')
         (gaps_of json_platform review_without_json) = None
   \<and> fetch_available json_platform
   \<and> (\<exists>prompt rest.
         buildFixPrompt (JStr ''CV'') (JStr review_without_json) = Inr prompt
       \<and> snd (after_review json_platform plain_environ plain_argv ''CV'' review_without_json [])
         = [WriteFile ''/work/output/recruiter_gaps.json.txt'' review_without_json,
            Post (url plain_environ opts_fix)
              (JSON_stringify (body1 json_platform plain_environ prompt opts_fix))] @ rest)\<close>
proof -
  have m1: \<open>match_braces review_with_json = Some ''{"gaps":[]}''\<close>
    and m2: "match_braces review_without_json = Some ''{missing: cloud, (see above}''"
    by (simp_all add: match_braces_def review_with_json_def review_without_json_def)
  have p1: \<open>JSON_parse_ok json_platform ''{"gaps":[]}''\<close>
    and p2: "\<not> JSON_parse_ok json_platform ''{missing: cloud, (see above}''"
    and p3: \<open>\<not> JSON_parse_ok json_platform ''{"a":1} then {"b":2}''\<close>
    by (simp_all add: json_platform_def)
  have w: "writeFileSync json_platform [] (out_file json_platform ''recruiter_gaps.json.txt'')
         (gaps_of json_platform review_without_json) = None"
    and f: "fetch_available json_platform"
    and o: "out_file json_platform ''recruiter_gaps.json.txt''
            = ''/work/output/recruiter_gaps.json.txt''"
    by (simp_all add: json_platform_def plain_platform_def out_file_def)
  have two: \<open>review_two_objects = ''First '' @ ''{'' @ ''"a":1} then {"b":2'' @ ''}'' @ '' end''\<close>
    and pre: "CHR ''{'' \<notin> set ''First ''" and post: "CHR ''}'' \<notin> set '' end''"
    by (simp_all add: review_two_objects_def)
  note j = gaps_never_abort [of review_two_objects json_platform]
  from j [THEN conjunct1] two pre post
  have \<open>match_braces review_two_objects = Some (''{'' @ ''"a":1} then {"b":2'' @ ''}'')\<close>
    by blast
  then have m3: \<open>match_braces review_two_objects = Some ''{"a":1} then {"b":2}''\<close>
    by simp
  from j [THEN conjunct2, THEN conjunct1] m3 p3
  have g3: "gaps_of json_platform review_two_objects = review_two_objects"
    by simp
  from gaps_never_abort [of review_with_json json_platform] m1 p1
  have g1: \<open>gaps_of json_platform review_with_json = ''{"gaps":[]}''\<close>
    by simp
  note i = gaps_never_abort [of review_without_json json_platform "[]" "''CV''" plain_environ
      plain_argv]
  from i [THEN conjunct2, THEN conjunct1] m2 p2
  have g2: "gaps_of json_platform review_without_json = review_without_json"
    by simp
  from i [THEN conjunct2, THEN conjunct2] w f
  have r: "\<exists>prompt rest.
         buildFixPrompt (JStr ''CV'') (JStr (gaps_of json_platform review_without_json)) = Inr prompt
       \<and> snd (after_review json_platform plain_environ plain_argv ''CV'' review_without_json [])
         = [] @ [WriteFile (out_file json_platform ''recruiter_gaps.json.txt'')
                   (gaps_of json_platform review_without_json),
            Post (url plain_environ opts_fix)
              (JSON_stringify (body1 json_platform plain_environ prompt opts_fix))] @ rest"
    by blast
  then have r': "\<exists>prompt rest.
         buildFixPrompt (JStr ''CV'') (JStr review_without_json) = Inr prompt
       \<and> snd (after_review json_platform plain_environ plain_argv ''CV'' review_without_json [])
         = [WriteFile ''/work/output/recruiter_gaps.json.txt'' review_without_json,
            Post (url plain_environ opts_fix)
              (JSON_stringify (body1 json_platform plain_environ prompt opts_fix))] @ rest"
    by (simp only: g2 o append_Nil)
  from m1 m2 m3 p1 p2 g1 g2 g3 w f r' show ?thesis by blast
qed

section \<open>A run without the resume\<close>

text \<open>
  C6, as amended. Let the resume be absent when line 466 looks for it: the requested path
  is a string, and none of the candidate locations that \<^verbatim>\<open>findResumeFile\<close> builds from it
  exists once line 463 has run (that line can itself make a candidate exist: it creates the
  output directory). Then the run makes no request and reads no file: all it does to the
  outside is to create the output directory or to write the error file. The process
  exits with status 2 exactly when the run reaches line 466, that is when the API key is
  set, line 233 does not throw and the output directory is there or can be made; the
  exit then follows line 463 at once, before the text of the resume is read. In the other
  runs the status is 1 (no API key), or the \<^verbatim>\<open>TypeError\<close> of line 233 ends the process, or
  the status is 10 (line 463 throws).
\<close>

theorem absent_resume:
  assumes "absent p a (snd (ensure_output p t))"
  shows "(\<exists>new. snd (script p env a t) = t @ new \<and> list_all disk_write new)
       \<and> ((exit_status (script p env a t) = Some 2)
            = (GEMINI_API_KEY env \<noteq> [] \<and> (\<exists>n. maxIterations p a = Inr n)
               \<and> fst (ensure_output p t) = Returned ()))
       \<and> (exit_status (script p env a t) = Some 2
            \<longrightarrow> snd (script p env a t) = snd (ensure_output p t))
       \<and> (GEMINI_API_KEY env = [] \<longrightarrow> script p env a t = (Exited 1, t))
       \<and> (GEMINI_API_KEY env \<noteq> [] \<and> maxIterations p a = Inl e
            \<longrightarrow> script p env a t = (Thrown e, t))
       \<and> (GEMINI_API_KEY env \<noteq> [] \<and> maxIterations p a = Inr n
            \<and> fst (ensure_output p t) \<noteq> Returned ()
            \<longrightarrow> exit_status (script p env a t) = Some 10)"
proof (cases "GEMINI_API_KEY env = []")
  case True
  then have "script p env a t = (Exited 1, t)"
    by (rule script_cases)
  with True show ?thesis
    by (simp add: exit_status_def)
next
  case key: False
  show ?thesis
  proof (cases "maxIterations p a")
    case (Inl e')
    with key have "script p env a t = (Thrown e', t)"
      by (rule script_cases)
    with key Inl show ?thesis
      by (simp add: exit_status_def)
  next
    case (Inr n')
    with key have s: "script p env a t = main_flow p env a t"
      by (rule script_cases)
    note m = main_flow_absent [OF assms, of env]
    show ?thesis
    proof (cases "fst (ensure_output p t) = Returned ()")
      case True
      with m(1) m(3) key Inr show ?thesis
        by (simp add: s exit_status_def)
    next
      case False
      with m(2) m(3) key Inr show ?thesis
        by (simp add: s exit_status_def)
    qed
  qed
qed

text \<open>
  Witness: the default path on a platform where no file exists and the output directory
  can be made.
\<close>

theorem absent_resume_witness:
  "absent plain_platform plain_argv (snd (ensure_output plain_platform []))
   \<and> ensure_output plain_platform [] = (Returned (), [Mkdir ''/work/output''])
   \<and> script plain_platform plain_environ plain_argv [] = (Exited 2, [Mkdir ''/work/output''])
   \<and> list_all disk_write [Mkdir ''/work/output'']"
proof -
  have c: "ensure_output plain_platform [] = (Returned (), [Mkdir ''/work/output''])"
    by (simp add: ensure_output_cases out_dir_def plain_platform_def)
  have a: "absent plain_platform plain_argv (snd (ensure_output plain_platform []))"
    by (simp add: absent_def requested_def resumePathInput_def js_or_def truthy_u_def
        plain_argv_def list_all_iff plain_platform_def)
  have k: "GEMINI_API_KEY plain_environ \<noteq> []"
    by (simp add: GEMINI_API_KEY_def or_str_def plain_environ_def)
  have n: "maxIterations plain_platform plain_argv = Inr (JNum ''1'')"
    by (simp add: maxIterations_def js_or_def truthy_u_def plain_argv_def plain_platform_def
        bindE_def)
  from absent_resume [OF a, of plain_environ] k n c
  have "exit_status (script plain_platform plain_environ plain_argv []) = Some 2"
    and "exit_status (script plain_platform plain_environ plain_argv []) = Some 2
         \<longrightarrow> snd (script plain_platform plain_environ plain_argv []) = [Mkdir ''/work/output'']"
    by simp_all
  then have "script plain_platform plain_environ plain_argv [] = (Exited 2, [Mkdir ''/work/output''])"
    by (cases "script plain_platform plain_environ plain_argv []")
       (auto simp: exit_status_def split: outcome.splits)
  with a c show ?thesis
    by (simp add: disk_write_def)
qed

text \<open>
  The claim as stated fails in five runs in which no candidate location exists when the
  run starts. Line 463 stands before the search for the resume: where the output
  directory is missing and cannot be made, the run ends in the handler with status 10.
  Where the requested path is \<^verbatim>\<open>output\<close>, line 463 creates the first candidate, the run
  goes on to read it and ends with status 10. Where the requested path is a number,
  \<^verbatim>\<open>path.isAbsolute\<close> throws and the run ends with status 10. Where the API key is not
  set the status is 1, and where line 233 throws the process ends with that error.
\<close>

theorem absent_resume_counterexample:
  "absent readonly_platform plain_argv []
   \<and> script readonly_platform plain_environ plain_argv [] = (Exited 10, [])
   \<and> absent fresh_platform output_argv []
   \<and> script fresh_platform plain_environ output_argv []
       = (Exited 10,
          [Mkdir ''/work/output'', ReadFile ''/work/output'',
           WriteFile ''/work/output/error.txt''
             ''Error: EISDIR: illegal operation on a directory, read''])
   \<and> requested numeric_argv = JNum ''5''
   \<and> script fresh_platform plain_environ numeric_argv []
       = (Exited 10,
          [Mkdir ''/work/output'',
           WriteFile ''/work/output/error.txt''
             ''TypeError: The path argument must be of type string''])
   \<and> script readonly_platform unset_environ plain_argv [] = (Exited 1, [])
   \<and> script readonly_platform plain_environ (plain_argv\<lparr>arg_max_iterations := dotted_flag\<rparr>) []
       = (Thrown (TypeError ''Cannot convert object to primitive value''), [])"
proof -
  have a1: "absent readonly_platform plain_argv []"
    by (simp add: absent_def requested_def resumePathInput_def js_or_def truthy_u_def
        plain_argv_def list_all_iff readonly_platform_def plain_platform_def)
  have a2: "absent fresh_platform output_argv []"
    by (simp add: absent_def requested_def resumePathInput_def js_or_def truthy_u_def
        output_argv_def plain_argv_def list_all_iff fresh_platform_def plain_platform_def)
  have a3: "requested numeric_argv = JNum ''5''"
    by (simp add: requested_def resumePathInput_def js_or_def truthy_u_def
        numeric_argv_def plain_argv_def)
  have k: "GEMINI_API_KEY plain_environ \<noteq> []"
    by (simp add: GEMINI_API_KEY_def or_str_def plain_environ_def)
  have n: "maxIterations p plain_argv = Inr (js_or (parseInt10 p ''1'') (JNum ''1''))"
      "maxIterations p output_argv = Inr (js_or (parseInt10 p ''1'') (JNum ''1''))"
      "maxIterations p numeric_argv = Inr (js_or (parseInt10 p ''1'') (JNum ''1''))" for p
    by (simp_all add: maxIterations_def js_or_def truthy_u_def plain_argv_def output_argv_def
        numeric_argv_def bindE_def)
  have s: "script p plain_environ plain_argv = main_flow p plain_environ plain_argv"
      "script p plain_environ output_argv = main_flow p plain_environ output_argv"
      "script p plain_environ numeric_argv = main_flow p plain_environ numeric_argv" for p
    using script_cases(3) [OF k n(1)] script_cases(3) [OF k n(2)] script_cases(3) [OF k n(3)]
    by (simp_all add: fun_eq_iff)
  have r1: "script readonly_platform plain_environ plain_argv [] = (Exited 10, [])"
    unfolding s
    by (simp add: run_defs readonly_platform_def plain_platform_def plain_argv_def)
  have r2: "script fresh_platform plain_environ output_argv []
       = (Exited 10,
          [Mkdir ''/work/output'', ReadFile ''/work/output'',
           WriteFile ''/work/output/error.txt''
             ''Error: EISDIR: illegal operation on a directory, read''])"
    unfolding s
    by (simp add: run_defs fresh_platform_def plain_platform_def output_argv_def plain_argv_def)
  have r3: "script fresh_platform plain_environ numeric_argv []
       = (Exited 10,
          [Mkdir ''/work/output'',
           WriteFile ''/work/output/error.txt''
             ''TypeError: The path argument must be of type string''])"
    unfolding s
    by (simp add: run_defs fresh_platform_def plain_platform_def numeric_argv_def plain_argv_def)
  have r4: "script readonly_platform unset_environ plain_argv [] = (Exited 1, [])"
    by (rule script_cases) (simp add: GEMINI_API_KEY_def or_str_def unset_environ_def plain_environ_def)
  have "maxIterations readonly_platform (plain_argv\<lparr>arg_max_iterations := dotted_flag\<rparr>)
      = Inl (TypeError ''Cannot convert object to primitive value'')"
    by (simp add: maxIterations_def js_or_def truthy_u_def dotted_flag_def bindE_def)
  from script_cases(2) [OF k this]
  have r5: "script readonly_platform plain_environ (plain_argv\<lparr>arg_max_iterations := dotted_flag\<rparr>) []
       = (Thrown (TypeError ''Cannot convert object to primitive value''), [])" .
  from a1 a2 a3 r1 r2 r3 r4 r5 show ?thesis by blast
qed

section \<open>The text of the resume\<close>

text \<open>
  C7. For every resume file that can be read and that \<^verbatim>\<open>mammoth\<close> accepts,
  \<^verbatim>\<open>extractTextFromDocx\<close> returns a string; that string has no carriage return, and it
  neither starts nor ends with a white space character or a line terminator.
\<close>

theorem extractTextFromDocx_clean:
  assumes "readFileSync p t f = Inr buffer" and "extractRawText p buffer = Inr v"
  shows "\<exists>s. extractTextFromDocx p f t = (Returned s, t @ [ReadFile f])
           \<and> CHR 0x0D \<notin> set s
           \<and> (\<forall>w \<in> set ws_seqs. \<not> prefix w s \<and> \<not> suffix w s)"
proof -
  let ?s = "trim (filter (\<lambda>c. c \<noteq> CHR 0x0D) v)"
  have "extractTextFromDocx p f t = (Returned ?s, t @ [ReadFile f])"
    using assms
    by (simp add: extractTextFromDocx_def then_io_def fs_readFileSync_def lib_def ret_def)
  moreover have "CHR 0x0D \<notin> set ?s"
    using trim_subset [of "filter (\<lambda>c. c \<noteq> CHR 0x0D) v"] by auto
  moreover have "\<forall>w \<in> set ws_seqs. \<not> prefix w ?s \<and> \<not> suffix w ?s"
    using trim_no_leading trim_no_trailing by blast
  ultimately show ?thesis by blast
qed

text \<open>Witness: the platform above, whose text is cut down to two lines.\<close>

theorem extractTextFromDocx_clean_witness:
  "readFileSync docx_platform [] ''/work/r.docx'' = Inr ''PK''
   \<and> extractRawText docx_platform ''PK''
       = Inr ('' Jane Doe'' @ [CHR 0x0D, CHR 0x0A] @ ''Engineer''
              @ [CHR 0x0D, CHR 0x0A, CHR 0xC2, CHR 0xA0])
   \<and> extractTextFromDocx docx_platform ''/work/r.docx'' []
       = (Returned ''Jane Doe\<newline>Engineer'', [ReadFile ''/work/r.docx''])
   \<and> CHR 0x0D \<notin> set ''Jane Doe\<newline>Engineer''
   \<and> [CHR 0x20] \<in> set ws_seqs \<and> \<not> prefix [CHR 0x20] ''Jane Doe\<newline>Engineer''
   \<and> \<not> suffix [CHR 0x20] ''Jane Doe\<newline>Engineer''"
proof -
  have a: "readFileSync docx_platform [] ''/work/r.docx'' = Inr ''PK''"
    and b: "extractRawText docx_platform ''PK''
       = Inr ('' Jane Doe'' @ [CHR 0x0D, CHR 0x0A] @ ''Engineer''
              @ [CHR 0x0D, CHR 0x0A, CHR 0xC2, CHR 0xA0])"
    by (simp_all add: docx_platform_def plain_platform_def)
  have c: "extractTextFromDocx docx_platform ''/work/r.docx'' []
       = (Returned ''Jane Doe\<newline>Engineer'', [ReadFile ''/work/r.docx''])"
    by (simp add: extractTextFromDocx_def then_io_def fs_readFileSync_def lib_def ret_def
        docx_platform_def plain_platform_def trim_def strip_lead.simps ws_seqs_def)
  have d: "[CHR 0x20] \<in> set ws_seqs"
    by (simp add: ws_seqs_def)
  from extractTextFromDocx_clean [OF a b] c d
  show ?thesis using a b by auto
qed

section \<open>The prompt builders\<close>

text \<open>
  C8. In the embedding a builder is a function of the values it is given and of nothing
  else (no platform, no environment, no events), and it can fail only where a value cannot
  be printed. On strings the three builders (tailor, recruiter review, fix) never fail:
  each returns a prompt. Two calls of a builder on the same strings return the same
  prompt.
\<close>

theorem prompt_builders_pure:
  "(\<exists>s. buildTailorPrompt (JStr r) (JStr t) (JStr d) = Inr s)
   \<and> (\<exists>s. buildRecruiterReviewPrompt (JStr m) (JStr c) (JStr t) (JStr d) = Inr s)
   \<and> (\<exists>s. buildFixPrompt (JStr m) (JStr g) = Inr s)
   \<and> (r = r' \<and> t = t' \<and> d = d'
        \<longrightarrow> buildTailorPrompt (JStr r) (JStr t) (JStr d)
            = buildTailorPrompt (JStr r') (JStr t') (JStr d'))
   \<and> (m = m' \<and> c = c' \<and> t = t' \<and> d = d'
        \<longrightarrow> buildRecruiterReviewPrompt (JStr m) (JStr c) (JStr t) (JStr d)
            = buildRecruiterReviewPrompt (JStr m') (JStr c') (JStr t') (JStr d'))
   \<and> (m = m' \<and> g = g'
        \<longrightarrow> buildFixPrompt (JStr m) (JStr g) = buildFixPrompt (JStr m') (JStr g'))"
  by (simp add: buildTailorPrompt_def buildRecruiterReviewPrompt_def buildFixPrompt_def
      bindE_def)

text \<open>Witness: the three builders on short strings, and the fix prompt written out.\<close>

theorem prompt_builders_pure_witness:
  "(\<exists>s. buildTailorPrompt (JStr ''CV'') (JStr ''Engineer'') (JStr ''Build things'') = Inr s)
   \<and> (\<exists>s. buildRecruiterReviewPrompt (JStr ''CV'') (JStr ''ACME'') (JStr ''Engineer'')
            (JStr ''Build things'') = Inr s)
   \<and> buildFixPrompt (JStr ''CV'') (JStr ''{}'')
       = Inr (''\<newline>You are an expert resume writer. Given the tailored resume below and the recruiter's identified gaps, update and improve the resume to address the gaps.\<newline>''
         @ ''\<newline>Tailored resume:\<newline>CV\<newline>\<newline>Recruiter gaps (JSON):\<newline>{}\<newline>\<newline>Task:\<newline>''
         @ ''1) Modify the resume to address the gaps as best as possible. If quantification is invented, mark numbers with parentheses and note they should be replaced.\<newline>''
         @ ''2) Return only the final updated resume in Markdown.\<newline>'')"
  using prompt_builders_pure [of "''CV''" "''Engineer''" "''Build things''" "''CV''" "''ACME''"
      "''{}''" "''CV''" "''Engineer''" "''Build things''" "''CV''" "''ACME''" "''{}''"]
  by (simp add: buildFixPrompt_def bindE_def)

section \<open>The flag that is read and not used\<close>

text \<open>
  C9, as amended. The script reads the flag \<^verbatim>\<open>max-iterations\<close> at line 233 only, into a
  constant that no other line mentions, and \<^verbatim>\<open>parseInt\<close> converts the value to a string.
  Take two runs that differ in the value of the flag only (same platform, environment,
  other flags and events so far). They have the same outcome and the same events, that is
  the same exit status, the same requests and the same files, in every case but one: the
  API key is set, and one of the two values can be converted to a string while the other
  cannot. A value cannot be converted when it is an object with a property \<^verbatim>\<open>toString\<close>, or
  an array that holds such a value; with the API key set, line 233 then throws a
  \<^verbatim>\<open>TypeError\<close> that nothing catches, before the main flow.
\<close>

theorem max_iterations_inert:
  "((script p env (a\<lparr>arg_max_iterations := v\<rparr>) = script p env (a\<lparr>arg_max_iterations := v'\<rparr>))
      = (GEMINI_API_KEY env = [] \<or> convertible v = convertible v'))
   \<and> (\<not> convertible v \<and> GEMINI_API_KEY env \<noteq> []
      \<longrightarrow> script p env (a\<lparr>arg_max_iterations := v\<rparr>) t
          = (Thrown (TypeError ''Cannot convert object to primitive value''), t))"
proof (intro conjI impI)
  have conv: "script p env (a\<lparr>arg_max_iterations := w\<rparr>) = main_flow p env a"
    if "GEMINI_API_KEY env \<noteq> []" and "convertible w" for w
  proof -
    from that(2) obtain n where "maxIterations p (a\<lparr>arg_max_iterations := w\<rparr>) = Inr n"
      using maxIterations_returns by blast
    from script_cases(3) [OF that(1) this] show ?thesis
      by (simp add: fun_eq_iff main_flow_inert)
  qed
  have thr: "script p env (a\<lparr>arg_max_iterations := w\<rparr>)
      = (\<lambda>t. (Thrown (TypeError ''Cannot convert object to primitive value''), t))"
    if "GEMINI_API_KEY env \<noteq> []" and "\<not> convertible w" for w
    using script_cases(2) [OF that(1) maxIterations_throws [OF that(2)]]
    by (simp add: fun_eq_iff)
  have differ: "script p env (a\<lparr>arg_max_iterations := w\<rparr>)
      \<noteq> script p env (a\<lparr>arg_max_iterations := w'\<rparr>)"
    if "GEMINI_API_KEY env \<noteq> []" and "convertible w" and "\<not> convertible w'" for w w'
  proof
    assume "script p env (a\<lparr>arg_max_iterations := w\<rparr>)
      = script p env (a\<lparr>arg_max_iterations := w'\<rparr>)"
    then have "main_flow p env a []
        = (Thrown (TypeError ''Cannot convert object to primitive value''), [])"
      using conv [OF that(1,2)] thr [OF that(1,3)] by (simp add: fun_eq_iff)
    then show False
      using main_flow_exits [of p env a "[]"] by auto
  qed
  show "(script p env (a\<lparr>arg_max_iterations := v\<rparr>) = script p env (a\<lparr>arg_max_iterations := v'\<rparr>))
      = (GEMINI_API_KEY env = [] \<or> convertible v = convertible v')"
  proof (cases "GEMINI_API_KEY env = []")
    case True
    then show ?thesis
      by (simp add: script_def)
  next
    case False
    show ?thesis
    proof (cases "convertible v"; cases "convertible v'")
      assume "convertible v" "convertible v'"
      with False conv show ?thesis by simp
    next
      assume "convertible v" "\<not> convertible v'"
      with False differ [of v v'] show ?thesis by simp
    next
      assume "\<not> convertible v" "convertible v'"
      with False differ [of v' v] show ?thesis by auto
    next
      assume "\<not> convertible v" "\<not> convertible v'"
      with False thr show ?thesis by simp
    qed
  qed
next
  assume "\<not> convertible v \<and> GEMINI_API_KEY env \<noteq> []"
  then show "script p env (a\<lparr>arg_max_iterations := v\<rparr>) t
      = (Thrown (TypeError ''Cannot convert object to primitive value''), t)"
    using script_cases(2) maxIterations_throws by blast
qed

text \<open>
  Witness: a run that succeeds, with the flag at 3 and with the flag given twice; and the
  flag written \<^verbatim>\<open>--max-iterations.toString x\<close>.
\<close>

theorem max_iterations_inert_witness:
  "convertible (Some (JNum ''3'')) \<and> convertible (Some (JArr [JStr ''many'', JBool True]))
   \<and> script happy_platform plain_environ (plain_argv\<lparr>arg_max_iterations := Some (JNum ''3'')\<rparr>)
     = script happy_platform plain_environ
         (plain_argv\<lparr>arg_max_iterations := Some (JArr [JStr ''many'', JBool True])\<rparr>)
   \<and> \<not> convertible dotted_flag \<and> GEMINI_API_KEY plain_environ \<noteq> []
   \<and> script happy_platform plain_environ (plain_argv\<lparr>arg_max_iterations := dotted_flag\<rparr>) []
     = (Thrown (TypeError ''Cannot convert object to primitive value''), [])"
proof -
  have a: "convertible (Some (JNum ''3''))"
    and b: "convertible (Some (JArr [JStr ''many'', JBool True]))"
    and c: "\<not> convertible dotted_flag"
    by (simp_all add: convertible_def dotted_flag_def)
  have k: "GEMINI_API_KEY plain_environ \<noteq> []"
    by (simp add: GEMINI_API_KEY_def or_str_def plain_environ_def)
  from max_iterations_inert [where p = happy_platform and env = plain_environ and a = plain_argv
      and v = "Some (JNum ''3'')" and v' = "Some (JArr [JStr ''many'', JBool True])"]
    max_iterations_inert [where p = happy_platform and env = plain_environ and a = plain_argv
      and v = dotted_flag and t = "[]"]
    a b c k
  show ?thesis by blast
qed

text \<open>
  The claim as stated fails. On a platform where the run with the flag at 3 ends with
  status 0, after thirteen events (the resume read, three requests, four files written and
  the five calls on the browser), the run with the flag written
  \<^verbatim>\<open>--max-iterations.toString x\<close> ends at line 233 with a \<^verbatim>\<open>TypeError\<close> that nothing
  catches: it makes no request and writes no file.
\<close>

theorem max_iterations_counterexample:
  "script happy_platform plain_environ (plain_argv\<lparr>arg_max_iterations := dotted_flag\<rparr>) []
     = (Thrown (TypeError ''Cannot convert object to primitive value''), [])
   \<and> exit_status (script happy_platform plain_environ
        (plain_argv\<lparr>arg_max_iterations := Some (JNum ''3'')\<rparr>) []) = Some 0
   \<and> length (snd (script happy_platform plain_environ
        (plain_argv\<lparr>arg_max_iterations := Some (JNum ''3'')\<rparr>) [])) = 13"
proof -
  have k: "GEMINI_API_KEY plain_environ \<noteq> []"
    by (simp add: GEMINI_API_KEY_def or_str_def plain_environ_def)
  have d: "maxIterations happy_platform (plain_argv\<lparr>arg_max_iterations := dotted_flag\<rparr>)
      = Inl (TypeError ''Cannot convert object to primitive value'')"
    by (simp add: maxIterations_def js_or_def truthy_u_def dotted_flag_def bindE_def)
  have n: "maxIterations happy_platform (plain_argv\<lparr>arg_max_iterations := Some (JNum ''3'')\<rparr>)
      = Inr (JNum ''1'')"
    by (simp add: maxIterations_def js_or_def truthy_u_def bindE_def happy_platform_def
        plain_platform_def)
  have run: "exit_status (main_flow happy_platform plain_environ
        (plain_argv\<lparr>arg_max_iterations := Some (JNum ''3'')\<rparr>) []) = Some 0"
    "length (snd (main_flow happy_platform plain_environ
        (plain_argv\<lparr>arg_max_iterations := Some (JNum ''3'')\<rparr>) [])) = 13"
    by (simp_all add: run_defs after_review_def saveMarkdownAsPdf_def write_rendered_html_def
        print_pdf_def browser_call_def callGemini_def postJson_def attempt_of_def lift_def
        extractTextFromResponseJson_def get_prop_def bindE_def exit_status_def
        happy_platform_def plain_platform_def plain_argv_def answer_ok_def
        buildTailorPrompt_def buildRecruiterReviewPrompt_def buildFixPrompt_def
        jobTitle_def jobDesc_def company_def gaps_of_def templatePath_def
        del: replace_first.simps)
  from script_cases(2) [OF k d] script_cases(3) [OF k n] run
  show ?thesis by simp
qed

section \<open>The generation client: a success status with a body that is not JSON\<close>

text \<open>
  C10. When an attempt is answered with a success status and \<^verbatim>\<open>res.json()\<close> rejects,
  \<^verbatim>\<open>postJson\<close> leaves \<^verbatim>\<open>json\<close> at \<^verbatim>\<open>null\<close>, \<^verbatim>\<open>extractTextFromResponseJson(null)\<close> is the
  empty string, and \<^verbatim>\<open>callGemini\<close> returns it: nothing is thrown and no further request
  is made. This holds for the first attempt, and for the second one after a first
  attempt that was answered with a failure status.
\<close>

theorem callGemini_unparsable_ok:
  assumes "fetch_available p"
  shows "(fetch p t (url env ops) (JSON_stringify (body1 p env prompt ops)) = Inr r
            \<and> r_ok r \<and> r_json r = None
          \<longrightarrow> callGemini p env prompt ops t
              = (Returned [], t @ [Post (url env ops) (JSON_stringify (body1 p env prompt ops))]))
       \<and> (fetch p t (url env ops) (JSON_stringify (body1 p env prompt ops)) = Inr r1
            \<and> \<not> r_ok r1
            \<and> fetch p (t @ [Post (url env ops) (JSON_stringify (body1 p env prompt ops))])
                 (url env ops) (JSON_stringify (body2 prompt)) = Inr r
            \<and> r_ok r \<and> r_json r = None
          \<longrightarrow> callGemini p env prompt ops t
              = (Returned [], t @ [Post (url env ops) (JSON_stringify (body1 p env prompt ops)),
                                   Post (url env ops) (JSON_stringify (body2 prompt))]))"
  using assms
  by (simp add: callGemini_def then_io_def postJson_def attempt_of_def lift_def ret_def
      extractTextFromResponseJson_def)

theorem callGemini_unparsable_ok_witness:
  "fetch_available plain_platform
   \<and> fetch plain_platform [] (url plain_environ opts_tailor)
        (JSON_stringify (body1 plain_platform plain_environ ''hi'' opts_tailor))
       = Inr unparsable_ok
   \<and> r_ok unparsable_ok \<and> r_json unparsable_ok = None
   \<and> callGemini plain_platform plain_environ ''hi'' opts_tailor []
       = (Returned [], [Post (url plain_environ opts_tailor)
            (JSON_stringify (body1 plain_platform plain_environ ''hi'' opts_tailor))])"
proof -
  have a: "fetch_available plain_platform"
    by (simp add: plain_platform_def)
  have b: "fetch plain_platform [] (url plain_environ opts_tailor)
        (JSON_stringify (body1 plain_platform plain_environ ''hi'' opts_tailor))
       = Inr unparsable_ok"
    by (simp add: plain_platform_def unparsable_ok_def)
  have c: "r_ok unparsable_ok \<and> r_json unparsable_ok = None"
    by (simp add: unparsable_ok_def)
  from callGemini_unparsable_ok [OF a, of "[]" plain_environ opts_tailor "''hi''" unparsable_ok]
    a b c
  show ?thesis by simp
qed

end
